theory Spec2Isabelle
  imports Main
begin

section \<open>Strings\<close>

text \<open>
  Strings of the plugin are modelled as \<open>string\<close>, a list of 8-bit characters: an ASCII
  character is itself, a character beyond ASCII (the glyphs of the task format) is the
  sequence of its UTF-8 bytes. The character classes of the regular expressions
  (\<open>\s\<close>, \<open>\w\<close>, \<open>\d\<close>, \<open>\b\<close>), \<open>trim\<close> and the case folding of
  \<open>toLowerCase\<close> and of the \<open>i\<close> flag are modelled on ASCII.
\<close>

definition is_space :: "char \<Rightarrow> bool" where
  "is_space c = (c \<in> set [CHR 0x09, CHR 0x0A, CHR 0x0B, CHR 0x0C, CHR 0x0D, CHR '' ''])"

definition is_digit :: "char \<Rightarrow> bool" where
  "is_digit c = (c \<in> set ''0123456789'')"

definition is_word :: "char \<Rightarrow> bool" where
  "is_word c = (c \<in> set ''abcdefghijklmnopqrstuvwxyzABCDEFGHIJKLMNOPQRSTUVWXYZ0123456789_'')"

definition lower_char :: "char \<Rightarrow> char" where
  "lower_char c =
     (case map_of (zip ''ABCDEFGHIJKLMNOPQRSTUVWXYZ'' ''abcdefghijklmnopqrstuvwxyz'') c of
        Some d \<Rightarrow> d
      | None \<Rightarrow> c)"

definition toLowerCase :: "string \<Rightarrow> string" where
  "toLowerCase s = map lower_char s"

text \<open>\<open>String.prototype.trim\<close>.\<close>

definition trim :: "string \<Rightarrow> string" where
  "trim s = rev (dropWhile is_space (rev (dropWhile is_space s)))"

text \<open>\<open>String.prototype.startsWith\<close>.\<close>

definition startsWith :: "string \<Rightarrow> string \<Rightarrow> bool" where
  "startsWith s p = (take (length p) s = p)"

text \<open>The same test under the \<open>i\<close> flag of a regular expression.\<close>

definition startsWith_ci :: "string \<Rightarrow> string \<Rightarrow> bool" where
  "startsWith_ci s p = (toLowerCase (take (length p) s) = toLowerCase p)"

text \<open>\<open>String.prototype.includes\<close>.\<close>

fun includes_str :: "string \<Rightarrow> string \<Rightarrow> bool" where
  "includes_str [] p = (p = [])"
| "includes_str (c # s) p = (startsWith (c # s) p \<or> includes_str s p)"

text \<open>\<open>Array.prototype.join\<close>.\<close>

fun join :: "string \<Rightarrow> string list \<Rightarrow> string" where
  "join sep [] = []"
| "join sep [x] = x"
| "join sep (x # y # ys) = x @ sep @ join sep (y # ys)"

text \<open>\<open>String.prototype.split\<close> with a one-character separator.\<close>

fun split_char :: "char \<Rightarrow> string \<Rightarrow> string list" where
  "split_char sep [] = [[]]"
| "split_char sep (c # s) =
     (if c = sep then [] # split_char sep s
      else (case split_char sep s of x # xs \<Rightarrow> (c # x) # xs | [] \<Rightarrow> [[c]]))"

section \<open>Regular expressions\<close>

text \<open>
  The regular expressions of the source are written as terms of \<open>regex\<close> and run by a
  backtracking matcher that follows the order of the ECMAScript matcher: the alternatives
  of \<open>|\<close> from left to right, a greedy quantifier longest first, a lazy one shortest
  first. A class item is a character, \<open>\w\<close>, \<open>\s\<close> or \<open>\d\<close>; \<open>Cls\<close> is a
  class \<open>[...]\<close>, \<open>NCls\<close> a negated class \<open>[^...]\<close>, \<open>Dot\<close> is \<open>.\<close>,
  \<open>Star\<close> is \<open>*\<close>, \<open>StarL\<close> is \<open>*?\<close>, \<open>Bol\<close> and \<open>Eol\<close> are \<open>^\<close> and
  \<open>$\<close> (no \<open>m\<close> flag), \<open>WordB\<close> is \<open>\b\<close>, \<open>Look\<close> is a lookahead
  \<open>(?=...)\<close> and \<open>Group n\<close> the \<open>n\<close>-th capturing group.
\<close>

datatype citem = C char | W | S | D

datatype regex =
    Eps
  | Chr char
  | Cls "citem list"
  | NCls "citem list"
  | Dot
  | Seq regex regex
  | Alt regex regex
  | Star regex
  | StarL regex
  | Bol
  | Eol
  | WordB
  | Look regex
  | Group nat regex

text \<open>
  A state of the matcher: the character before the current position (none at the start of
  the input), the input from the current position on, and the groups captured so far
  (the latest first).
\<close>

record mstate =
  prev :: "char option"
  rest :: string
  caps :: "(nat \<times> string) list"

definition is_line_terminator :: "char \<Rightarrow> bool" where
  "is_line_terminator c = (c = CHR 0x0A \<or> c = CHR 0x0D)"

text \<open>The first argument is the flag \<open>i\<close>.\<close>

fun citem_has :: "bool \<Rightarrow> citem \<Rightarrow> char \<Rightarrow> bool" where
  "citem_has ci (C x) c = (if ci then lower_char x = lower_char c else x = c)"
| "citem_has ci W c = is_word c"
| "citem_has ci S c = is_space c"
| "citem_has ci D c = is_digit c"

definition step :: "(char \<Rightarrow> bool) \<Rightarrow> mstate \<Rightarrow> mstate list" where
  "step p st =
     (case rest st of
        [] \<Rightarrow> []
      | c # cs \<Rightarrow> if p c then [st\<lparr>prev := Some c, rest := cs\<rparr>] else [])"

definition at_word_boundary :: "mstate \<Rightarrow> bool" where
  "at_word_boundary st =
     ((case prev st of None \<Rightarrow> False | Some c \<Rightarrow> is_word c) \<noteq>
      (case rest st of [] \<Rightarrow> False | c # cs \<Rightarrow> is_word c))"

text \<open>
  The quantifiers: the results of \<open>f\<close> are the ways to match the body once; an
  iteration that consumes nothing is dropped, as the ECMAScript matcher does, so the
  number of iterations is at most the length of the input left.
\<close>

primrec star_greedy :: "nat \<Rightarrow> (mstate \<Rightarrow> mstate list) \<Rightarrow> mstate \<Rightarrow> mstate list" where
  "star_greedy 0 f st = [st]"
| "star_greedy (Suc n) f st =
     concat (map (\<lambda>st'. if length (rest st') < length (rest st) then star_greedy n f st' else [])
       (f st)) @ [st]"

primrec star_lazy :: "nat \<Rightarrow> (mstate \<Rightarrow> mstate list) \<Rightarrow> mstate \<Rightarrow> mstate list" where
  "star_lazy 0 f st = [st]"
| "star_lazy (Suc n) f st =
     st # concat (map (\<lambda>st'. if length (rest st') < length (rest st) then star_lazy n f st' else [])
       (f st))"

text \<open>
  \<open>ms r ci st\<close>: the states in which a match of \<open>r\<close> from \<open>st\<close> can end, in the order
  in which backtracking tries them.
\<close>

primrec ms :: "regex \<Rightarrow> bool \<Rightarrow> mstate \<Rightarrow> mstate list" where
  "ms Eps ci st = [st]"
| "ms (Chr x) ci st = step (citem_has ci (C x)) st"
| "ms (Cls xs) ci st = step (\<lambda>c. \<exists>x \<in> set xs. citem_has ci x c) st"
| "ms (NCls xs) ci st = step (\<lambda>c. \<not> (\<exists>x \<in> set xs. citem_has ci x c)) st"
| "ms Dot ci st = step (\<lambda>c. \<not> is_line_terminator c) st"
| "ms (Seq r1 r2) ci st = concat (map (ms r2 ci) (ms r1 ci st))"
| "ms (Alt r1 r2) ci st = ms r1 ci st @ ms r2 ci st"
| "ms (Star r) ci st = star_greedy (length (rest st)) (ms r ci) st"
| "ms (StarL r) ci st = star_lazy (length (rest st)) (ms r ci) st"
| "ms Bol ci st = (if prev st = None then [st] else [])"
| "ms Eol ci st = (if rest st = [] then [st] else [])"
| "ms WordB ci st = (if at_word_boundary st then [st] else [])"
| "ms (Look r) ci st = (if ms r ci st = [] then [] else [st])"
| "ms (Group n r) ci st =
     map (\<lambda>st'. st'\<lparr>caps := (n, take (length (rest st) - length (rest st')) (rest st)) # caps st'\<rparr>)
       (ms r ci st)"

text \<open>A literal string, a sequence, an alternation, \<open>+\<close>, \<open>+?\<close>, \<open>?\<close> and \<open>{n}\<close>.\<close>

fun Str :: "string \<Rightarrow> regex" where
  "Str [] = Eps"
| "Str [c] = Chr c"
| "Str (c # cs) = Seq (Chr c) (Str cs)"

fun Seqs :: "regex list \<Rightarrow> regex" where
  "Seqs [] = Eps"
| "Seqs [r] = r"
| "Seqs (r # rs) = Seq r (Seqs rs)"

fun Alts :: "regex list \<Rightarrow> regex" where
  "Alts [] = Cls []"
| "Alts [r] = r"
| "Alts (r # rs) = Alt r (Alts rs)"

definition Plus :: "regex \<Rightarrow> regex" where
  "Plus r = Seq r (Star r)"

definition PlusL :: "regex \<Rightarrow> regex" where
  "PlusL r = Seq r (StarL r)"

definition Opt :: "regex \<Rightarrow> regex" where
  "Opt r = Alt r Eps"

fun Rep :: "nat \<Rightarrow> regex \<Rightarrow> regex" where
  "Rep 0 r = Eps"
| "Rep (Suc 0) r = r"
| "Rep (Suc n) r = Seq r (Rep n r)"

text \<open>
  The result of a match: where it starts, the text matched (\<open>match[0]\<close>) and the groups.
  \<open>group m n\<close> is \<open>match[n]\<close>, \<open>None\<close> when the group took no part (\<open>undefined\<close>).
\<close>

record rmatch =
  index :: nat
  matched :: string
  groups :: "(nat \<times> string) list"

definition group :: "rmatch \<Rightarrow> nat \<Rightarrow> string option" where
  "group m n = map_of (groups m) n"

text \<open>
  \<open>RegExp.prototype.exec\<close> from a position: the leftmost start at which the expression
  matches, and there the first match in backtracking order. \<open>p\<close> is the character
  before the position and \<open>i\<close> its index.
\<close>

fun exec_from :: "regex \<Rightarrow> bool \<Rightarrow> nat \<Rightarrow> char option \<Rightarrow> string \<Rightarrow> rmatch option" where
  "exec_from r ci i p [] =
     (case ms r ci \<lparr>prev = p, rest = [], caps = []\<rparr> of
        st # sts \<Rightarrow> Some \<lparr>index = i, matched = [], groups = caps st\<rparr>
      | [] \<Rightarrow> None)"
| "exec_from r ci i p (c # cs) =
     (case ms r ci \<lparr>prev = p, rest = c # cs, caps = []\<rparr> of
        st # sts \<Rightarrow>
          Some \<lparr>index = i, matched = take (length (c # cs) - length (rest st)) (c # cs),
            groups = caps st\<rparr>
      | [] \<Rightarrow> exec_from r ci (Suc i) (Some c) cs)"

text \<open>\<open>String.prototype.match\<close> without the flag \<open>g\<close>, and \<open>RegExp.prototype.test\<close>.\<close>

definition match :: "regex \<Rightarrow> bool \<Rightarrow> string \<Rightarrow> rmatch option" where
  "match r ci s = exec_from r ci 0 None s"

definition test :: "regex \<Rightarrow> bool \<Rightarrow> string \<Rightarrow> bool" where
  "test r ci s = (match r ci s \<noteq> None)"

text \<open>\<open>String.prototype.replace\<close> of the first match of an expression by the empty string.\<close>

definition replace_regex :: "regex \<Rightarrow> bool \<Rightarrow> string \<Rightarrow> string" where
  "replace_regex r ci s =
     (case match r ci s of
        None \<Rightarrow> s
      | Some m \<Rightarrow> take (index m) s @ drop (index m + length (matched m)) s)"

text \<open>\<open>String.prototype.replace\<close> of the first occurrence of a string by the empty string.\<close>

fun replace_string :: "string \<Rightarrow> string \<Rightarrow> string" where
  "replace_string [] p = []"
| "replace_string (c # s) p =
     (if startsWith (c # s) p then drop (length p) (c # s) else c # replace_string s p)"

text \<open>
  The flag \<open>g\<close>: \<open>String.prototype.replace\<close> of every match by the empty string, and
  \<open>String.prototype.match\<close>, the list of the texts matched. The search goes on after
  each match; after an empty match it moves one character on.
\<close>

function replace_all :: "regex \<Rightarrow> bool \<Rightarrow> char option \<Rightarrow> string \<Rightarrow> string" where
  "replace_all r ci p s =
     (case ms r ci \<lparr>prev = p, rest = s, caps = []\<rparr> of
        st # sts \<Rightarrow>
          (if length (rest st) < length s then replace_all r ci (prev st) (rest st)
           else (case s of [] \<Rightarrow> [] | c # cs \<Rightarrow> c # replace_all r ci (Some c) cs))
      | [] \<Rightarrow> (case s of [] \<Rightarrow> [] | c # cs \<Rightarrow> c # replace_all r ci (Some c) cs))"
  by pat_completeness auto
termination
  by (relation "measure (\<lambda>(r, ci, p, s). length s)") auto

declare replace_all.simps [simp del]

function match_all :: "regex \<Rightarrow> bool \<Rightarrow> char option \<Rightarrow> string \<Rightarrow> string list" where
  "match_all r ci p s =
     (case ms r ci \<lparr>prev = p, rest = s, caps = []\<rparr> of
        st # sts \<Rightarrow>
          (if length (rest st) < length s
           then take (length s - length (rest st)) s # match_all r ci (prev st) (rest st)
           else [] # (case s of [] \<Rightarrow> [] | c # cs \<Rightarrow> match_all r ci (Some c) cs))
      | [] \<Rightarrow> (case s of [] \<Rightarrow> [] | c # cs \<Rightarrow> match_all r ci (Some c) cs))"
  by pat_completeness auto
termination
  by (relation "measure (\<lambda>(r, ci, p, s). length s)") auto

declare match_all.simps [simp del]

section \<open>Dates\<close>

text \<open>
  A \<open>moment\<close> is modelled by the day it falls on in local time, counted from
  1970-01-01 (the day number of the ECMAScript \<open>Date\<close> the moment wraps): the operations
  the plugin uses (\<open>add\<close> and \<open>subtract\<close> of days, weeks, months and years, the
  setters, \<open>endOf\<close>, \<open>isBefore(_, 'day')\<close> and \<open>format('YYYY-MM-DD')\<close>) depend on
  the day only. The calendar is the proleptic Gregorian one of ECMAScript, and it is not
  bounded here (a \<open>Date\<close> ends 100,000,000 days from the epoch). The locale is the
  default \<open>en\<close>, whose week starts on Sunday.
\<close>

type_synonym moment = int

definition isLeapYear :: "int \<Rightarrow> bool" where
  "isLeapYear y = ((y mod 4 = 0 \<and> y mod 100 \<noteq> 0) \<or> y mod 400 = 0)"

text \<open>\<open>DayFromYear\<close> of ECMAScript: the day number of January 1st of year \<open>y\<close>.\<close>

definition DayFromYear :: "int \<Rightarrow> int" where
  "DayFromYear y = 365 * (y - 1970) + (y - 1969) div 4 - (y - 1901) div 100 + (y - 1601) div 400"

text \<open>
  \<open>YearFromTime\<close>: the largest year whose first day is not after the day \<open>n\<close>. It is
  computed from an estimate that is off by at most one.
\<close>

definition YearFromDay :: "int \<Rightarrow> int" where
  "YearFromDay n =
     (let y = (400 * (n + 719528)) div 146097 in
      if DayFromYear (y + 1) \<le> n then y + 1
      else if DayFromYear y \<le> n then y
      else y - 1)"

definition DayWithinYear :: "int \<Rightarrow> int" where
  "DayWithinYear n = n - DayFromYear (YearFromDay n)"

text \<open>The day within the year on which each month starts (\<open>MonthFromTime\<close>).\<close>

definition month_starts :: "bool \<Rightarrow> int list" where
  "month_starts leap =
     (let l = (if leap then 1 else 0) in
      [0, 31, 59 + l, 90 + l, 120 + l, 151 + l, 181 + l, 212 + l, 243 + l, 273 + l,
       304 + l, 334 + l])"

definition MonthFromDay :: "int \<Rightarrow> int" where
  "MonthFromDay n =
     int (length (filter (\<lambda>s. s \<le> DayWithinYear n) (month_starts (isLeapYear (YearFromDay n))))) - 1"

definition DateFromDay :: "int \<Rightarrow> int" where
  "DateFromDay n =
     DayWithinYear n - month_starts (isLeapYear (YearFromDay n)) ! nat (MonthFromDay n) + 1"

text \<open>\<open>WeekDay\<close>: 0 is Sunday; day 0 is a Thursday.\<close>

definition WeekDay :: "int \<Rightarrow> int" where
  "WeekDay n = (n + 4) mod 7"

text \<open>
  \<open>MakeDay\<close>: the day number of the day \<open>d\<close> of month \<open>m\<close> (from 0) of year \<open>y\<close>;
  a month outside 0..11 and a day outside the month carry over, as in \<open>Date\<close>.
\<close>

definition MakeDay :: "int \<Rightarrow> int \<Rightarrow> int \<Rightarrow> int" where
  "MakeDay y m d =
     DayFromYear (y + m div 12) + month_starts (isLeapYear (y + m div 12)) ! nat (m mod 12) + d - 1"

text \<open>The function \<open>daysInMonth\<close> of moment: the month may lie outside 0..11.\<close>

definition daysInMonth :: "int \<Rightarrow> int \<Rightarrow> int" where
  "daysInMonth y m =
     (let modMonth = m mod 12; y' = y + (m - modMonth) div 12 in
      if modMonth = 1 then (if isLeapYear y' then 29 else 28)
      else 31 - (modMonth mod 7) mod 2)"

text \<open>
  The getters \<open>year()\<close>, \<open>month()\<close>, \<open>date()\<close>, \<open>day()\<close> are \<open>YearFromDay\<close>,
  \<open>MonthFromDay\<close>, \<open>DateFromDay\<close> and \<open>WeekDay\<close>. The setters of moment:
  \<open>month(v)\<close> keeps the day of the month, cut down to the length of the new month;
  \<open>year(v)\<close> is \<open>Date.setFullYear\<close>, but February 29th goes to the last day of
  February; \<open>date(v)\<close> is \<open>Date.setDate\<close>; \<open>day(v)\<close> moves inside the week that
  starts on Sunday.
\<close>

definition set_month :: "moment \<Rightarrow> int \<Rightarrow> moment" where
  "set_month n v = MakeDay (YearFromDay n) v (min (DateFromDay n) (daysInMonth (YearFromDay n) v))"

definition set_year :: "moment \<Rightarrow> int \<Rightarrow> moment" where
  "set_year n v =
     (if isLeapYear (YearFromDay n) \<and> MonthFromDay n = 1 \<and> DateFromDay n = 29
      then MakeDay v 1 (daysInMonth v 1)
      else MakeDay v (MonthFromDay n) (DateFromDay n))"

definition set_date :: "moment \<Rightarrow> int \<Rightarrow> moment" where
  "set_date n v = MakeDay (YearFromDay n) (MonthFromDay n) v"

definition set_day :: "moment \<Rightarrow> int \<Rightarrow> moment" where
  "set_day n v = n + (v - WeekDay n)"

text \<open>\<open>add(k, unit)\<close>: weeks are 7 days, years are 12 months.\<close>

datatype unit = Day | Week | Month | Year

fun add :: "moment \<Rightarrow> int \<Rightarrow> unit \<Rightarrow> moment" where
  "add n k Day = n + k"
| "add n k Week = n + 7 * k"
| "add n k Month = set_month n (MonthFromDay n + k)"
| "add n k Year = set_month n (MonthFromDay n + 12 * k)"

fun endOf :: "moment \<Rightarrow> unit \<Rightarrow> moment" where
  "endOf n Day = n"
| "endOf n Week = n + (6 - WeekDay n)"
| "endOf n Month = MakeDay (YearFromDay n) (MonthFromDay n) (daysInMonth (YearFromDay n) (MonthFromDay n))"
| "endOf n Year = MakeDay (YearFromDay n) 11 31"

text \<open>Decimal digits of a natural number, and \<open>zeroFill\<close> of moment.\<close>

fun digits :: "nat \<Rightarrow> string" where
  "digits n =
     (if n < 10 then [''0123456789'' ! n]
      else digits (n div 10) @ [''0123456789'' ! (n mod 10)])"

definition zeroFill :: "int \<Rightarrow> nat \<Rightarrow> string" where
  "zeroFill number targetLength =
     (let absNumber = digits (nat \<bar>number\<bar>) in
      (if number \<ge> 0 then [] else ''-'') @
      replicate (targetLength - length absNumber) CHR ''0'' @ absNumber)"

text \<open>\<open>format('YYYY-MM-DD')\<close>.\<close>

definition format :: "moment \<Rightarrow> string" where
  "format n =
     (let y = YearFromDay n in
      (if y \<le> 9999 then zeroFill y 4 else ''+'' @ digits (nat y)) @ ''-'' @
      zeroFill (MonthFromDay n + 1) 2 @ ''-'' @ zeroFill (DateFromDay n) 2)"

text \<open>\<open>parseInt\<close> of a string of decimal digits.\<close>

definition digit_val :: "char \<Rightarrow> int" where
  "digit_val c = int (length (takeWhile (\<lambda>d. d \<noteq> c) ''0123456789''))"

definition parseInt :: "string \<Rightarrow> int" where
  "parseInt s = foldl (\<lambda>a c. 10 * a + digit_val c) 0 s"

text \<open>\<open>Array.prototype.indexOf\<close>.\<close>

fun indexOf :: "'a list \<Rightarrow> 'a \<Rightarrow> int" where
  "indexOf [] x = -1"
| "indexOf (y # ys) x = (if y = x then 0 else (let i = indexOf ys x in if i < 0 then -1 else i + 1))"

section \<open>The date normalizer\<close>

text \<open>
  The strict parser \<open>moment(dateString, formats, true)\<close> with the formats
  \<open>YYYY-MM-DD\<close>, \<open>MM/DD/YYYY\<close>, \<open>DD/MM/YYYY\<close>, \<open>MMM DD, YYYY\<close> and
  \<open>MMMM DD, YYYY\<close>: in strict mode a format fits when the whole input is the tokens of
  the format one after the other (\<open>YYYY\<close> four digits, \<open>MM\<close> and \<open>DD\<close> two digits,
  \<open>MMM\<close> and \<open>MMMM\<close> a short or long English month name in any case) and the month
  and the day exist; the first format that fits gives the date.
\<close>

definition monthNames :: "string list" where
  "monthNames = [''january'', ''february'', ''march'', ''april'', ''may'', ''june'', ''july'',
     ''august'', ''september'', ''october'', ''november'', ''december'']"

definition monthsShort :: "string list" where
  "monthsShort = [''jan'', ''feb'', ''mar'', ''apr'', ''may'', ''jun'', ''jul'', ''aug'', ''sep'',
     ''oct'', ''nov'', ''dec'']"

definition grp :: "rmatch \<Rightarrow> nat \<Rightarrow> string" where
  "grp m n = (case group m n of Some g \<Rightarrow> g | None \<Rightarrow> [])"

definition checked_date :: "int \<Rightarrow> int \<Rightarrow> int \<Rightarrow> moment option" where
  "checked_date y m d =
     (if 0 \<le> m \<and> m \<le> 11 \<and> 1 \<le> d \<and> d \<le> daysInMonth y m then Some (MakeDay y m d) else None)"

definition parse_YYYY_MM_DD :: "string \<Rightarrow> moment option" where
  "parse_YYYY_MM_DD s =
     (case match (Seqs [Bol, Group 1 (Rep 4 (Cls [D])), Chr CHR ''-'', Group 2 (Rep 2 (Cls [D])),
                   Chr CHR ''-'', Group 3 (Rep 2 (Cls [D])), Eol]) False s of
        None \<Rightarrow> None
      | Some m \<Rightarrow> checked_date (parseInt (grp m 1)) (parseInt (grp m 2) - 1) (parseInt (grp m 3)))"

definition parse_MM_DD_YYYY :: "string \<Rightarrow> moment option" where
  "parse_MM_DD_YYYY s =
     (case match (Seqs [Bol, Group 1 (Rep 2 (Cls [D])), Chr CHR ''/'', Group 2 (Rep 2 (Cls [D])),
                   Chr CHR ''/'', Group 3 (Rep 4 (Cls [D])), Eol]) False s of
        None \<Rightarrow> None
      | Some m \<Rightarrow> checked_date (parseInt (grp m 3)) (parseInt (grp m 1) - 1) (parseInt (grp m 2)))"

definition parse_DD_MM_YYYY :: "string \<Rightarrow> moment option" where
  "parse_DD_MM_YYYY s =
     (case match (Seqs [Bol, Group 1 (Rep 2 (Cls [D])), Chr CHR ''/'', Group 2 (Rep 2 (Cls [D])),
                   Chr CHR ''/'', Group 3 (Rep 4 (Cls [D])), Eol]) False s of
        None \<Rightarrow> None
      | Some m \<Rightarrow> checked_date (parseInt (grp m 3)) (parseInt (grp m 2) - 1) (parseInt (grp m 1)))"

definition parse_Month_DD_YYYY :: "string list \<Rightarrow> string \<Rightarrow> moment option" where
  "parse_Month_DD_YYYY names s =
     (case match (Seqs [Bol, Group 1 (Alts (map Str names)), Chr CHR '' '',
                   Group 2 (Rep 2 (Cls [D])), Chr CHR '','', Chr CHR '' '',
                   Group 3 (Rep 4 (Cls [D])), Eol]) True s of
        None \<Rightarrow> None
      | Some m \<Rightarrow>
          checked_date (parseInt (grp m 3)) (indexOf names (toLowerCase (grp m 1)))
            (parseInt (grp m 2)))"

fun first_valid :: "(string \<Rightarrow> moment option) list \<Rightarrow> string \<Rightarrow> moment option" where
  "first_valid [] s = None"
| "first_valid (f # fs) s = (case f s of Some d \<Rightarrow> Some d | None \<Rightarrow> first_valid fs s)"

definition moment_strict :: "string \<Rightarrow> moment option" where
  "moment_strict s =
     first_valid [parse_YYYY_MM_DD, parse_MM_DD_YYYY, parse_DD_MM_YYYY,
       parse_Month_DD_YYYY monthsShort, parse_Month_DD_YYYY monthNames] s"

text \<open>The last step of both versions of \<open>parseNaturalDate\<close>.\<close>

definition parse_standard :: "string \<Rightarrow> string option" where
  "parse_standard dateString =
     (case moment_strict dateString of Some parsed \<Rightarrow> Some (format parsed) | None \<Rightarrow> None)"

definition weekdayNames :: "string list" where
  "weekdayNames = [''monday'', ''tuesday'', ''wednesday'', ''thursday'', ''friday'', ''saturday'',
     ''sunday'']"

definition weekdayIndex :: "string list" where
  "weekdayIndex = [''sunday'', ''monday'', ''tuesday'', ''wednesday'', ''thursday'', ''friday'',
     ''saturday'']"

text \<open>\<open>/^next\s+(monday|tuesday|wednesday|thursday|friday|saturday|sunday|week|month|year)$/\<close>\<close>

definition nextRegex :: regex where
  "nextRegex = Seqs [Bol, Str ''next'', Plus (Cls [S]),
     Group 1 (Alts (map Str (weekdayNames @ [''week'', ''month'', ''year'']))), Eol]"

text \<open>
  The block \<open>if (nextMatch)\<close>, the same in both versions: \<open>Some\<close> is the value returned.
\<close>

definition next_rule :: "moment \<Rightarrow> string \<Rightarrow> string option" where
  "next_rule today unit =
     (if unit \<in> set weekdayNames then
        (let targetDay = indexOf weekdayIndex unit;
             nextDate = today;
             nextDate = (if WeekDay nextDate \<ge> targetDay then add nextDate 1 Week else nextDate);
             nextDate = set_day nextDate targetDay
         in Some (format nextDate))
      else if unit = ''week'' then Some (format (add today 1 Week))
      else if unit = ''month'' then Some (format (add today 1 Month))
      else if unit = ''year'' then Some (format (add today 1 Year))
      else None)"

text \<open>
  \<open>parseNaturalDate\<close> of the plugin (lines 2893 to 2928 of \<open>main.ts\<close>). \<open>baseDate\<close> is
  the optional second argument; when it is absent the function reads the clock
  (\<open>window.moment()\<close>), here the argument \<open>now\<close>.
\<close>

definition parseNaturalDate :: "moment \<Rightarrow> string \<Rightarrow> moment option \<Rightarrow> string option" where
  "parseNaturalDate now dateString baseDate =
     (let today = (case baseDate of Some b \<Rightarrow> b | None \<Rightarrow> now);
          normalizedDate = trim (toLowerCase dateString)
      in
      if normalizedDate = ''today'' \<or> normalizedDate = ''tonight'' then Some (format today)
      else if normalizedDate = ''tomorrow'' then Some (format (add today 1 Day))
      else if normalizedDate = ''yesterday'' then Some (format (add today (-1) Day))
      else case (case match nextRegex False normalizedDate of
                   Some nextMatch \<Rightarrow> next_rule today (grp nextMatch 1)
                 | None \<Rightarrow> None) of
        Some r \<Rightarrow> Some r
      | None \<Rightarrow> parse_standard dateString)"

text \<open>
  The longer \<open>parseNaturalDate\<close> of the second copy of the plugin in \<open>main.ts\<close> (lines 4854
  to 4973), with its rules in the order of the source.
\<close>

text \<open>\<open>/^this\s+(monday|tuesday|wednesday|thursday|friday|saturday|sunday|weekend)$/\<close>\<close>

definition thisRegex :: regex where
  "thisRegex = Seqs [Bol, Str ''this'', Plus (Cls [S]),
     Group 1 (Alts (map Str (weekdayNames @ [''weekend'']))), Eol]"

definition unitsRegex :: regex where
  "unitsRegex = Alts [Seq (Str ''day'') (Opt (Chr CHR ''s'')), Seq (Str ''week'') (Opt (Chr CHR ''s'')),
     Seq (Str ''month'') (Opt (Chr CHR ''s''))]"

text \<open>\<open>/^in\s+(\d+)\s+(days?|weeks?|months?)$/\<close>\<close>

definition inRegex :: regex where
  "inRegex = Seqs [Bol, Str ''in'', Plus (Cls [S]), Group 1 (Plus (Cls [D])), Plus (Cls [S]),
     Group 2 unitsRegex, Eol]"

text \<open>\<open>/^(\d+)\s+(days?|weeks?|months?)\s+from\s+(now|today)$/\<close>\<close>

definition fromNowRegex :: regex where
  "fromNowRegex = Seqs [Bol, Group 1 (Plus (Cls [D])), Plus (Cls [S]), Group 2 unitsRegex,
     Plus (Cls [S]), Str ''from'', Plus (Cls [S]), Group 3 (Alt (Str ''now'') (Str ''today'')), Eol]"

definition ordinalSuffix :: regex where
  "ordinalSuffix = Opt (Alts [Str ''st'', Str ''nd'', Str ''rd'', Str ''th''])"

text \<open>
  \<open>/(\d{1,2})(?:st|nd|rd|th)?\s+(january|...|december)(?:\s+(\d{4}))?/\<close>
\<close>

definition ordinalDateRegex :: regex where
  "ordinalDateRegex = Seqs [Group 1 (Seq (Cls [D]) (Opt (Cls [D]))), ordinalSuffix, Plus (Cls [S]),
     Group 2 (Alts (map Str monthNames)),
     Opt (Seq (Plus (Cls [S])) (Group 3 (Rep 4 (Cls [D]))))]"

text \<open>
  \<open>/(january|...|december)\s+(\d{1,2})(?:st|nd|rd|th)?(?:\s*,?\s*(\d{4}))?/\<close>
\<close>

definition monthDayRegex :: regex where
  "monthDayRegex = Seqs [Group 1 (Alts (map Str monthNames)), Plus (Cls [S]),
     Group 2 (Seq (Cls [D]) (Opt (Cls [D]))), ordinalSuffix,
     Opt (Seqs [Star (Cls [S]), Opt (Chr CHR '',''), Star (Cls [S]), Group 3 (Rep 4 (Cls [D]))])]"

text \<open>\<open>/^(monday|tuesday|wednesday|thursday|friday|saturday|sunday)$/\<close>\<close>

definition dayRegex :: regex where
  "dayRegex = Seqs [Bol, Group 1 (Alts (map Str weekdayNames)), Eol]"

text \<open>The unit of \<open>add\<close> from \<open>inMatch[2].replace(/s$/, '')\<close>.\<close>

definition unit_of :: "string \<Rightarrow> unit option" where
  "unit_of u =
     (let unit = replace_regex (Seq (Chr CHR ''s'') Eol) False u in
      if unit = ''day'' then Some Day
      else if unit = ''week'' then Some Week
      else if unit = ''month'' then Some Month
      else None)"

definition this_rule :: "moment \<Rightarrow> string \<Rightarrow> string option" where
  "this_rule today day =
     (if day = ''weekend'' then Some (format (set_day today 6))
      else Some (format (set_day today (indexOf weekdayIndex day))))"

definition amount_rule :: "moment \<Rightarrow> string \<Rightarrow> string \<Rightarrow> string option" where
  "amount_rule today amount u =
     (case unit_of u of
        Some unit \<Rightarrow> Some (format (add today (parseInt amount) unit))
      | None \<Rightarrow> None)"

text \<open>
  The body shared by the two rules for a day and a month: \<open>day\<close> and \<open>monthIndex\<close> are
  the numbers read from the phrase and \<open>yearGroup\<close> is the captured year, if any.
\<close>

definition day_month_rule :: "moment \<Rightarrow> int \<Rightarrow> int \<Rightarrow> string option \<Rightarrow> string" where
  "day_month_rule today day monthIndex yearGroup =
     (let year = (case yearGroup of Some y \<Rightarrow> parseInt y | None \<Rightarrow> YearFromDay today);
          targetDate = set_date (set_month (set_year today year) monthIndex) day;
          targetDate = (if yearGroup = None \<and> targetDate < today then add targetDate 1 Year
                        else targetDate)
      in format targetDate)"

definition end_rule :: "moment \<Rightarrow> string \<Rightarrow> string option" where
  "end_rule today normalizedDate =
     (if normalizedDate = ''end of week'' \<or> normalizedDate = ''eow'' then Some (format (endOf today Week))
      else if normalizedDate = ''end of month'' \<or> normalizedDate = ''eom'' then Some (format (endOf today Month))
      else if normalizedDate = ''end of year'' \<or> normalizedDate = ''eoy'' then Some (format (endOf today Year))
      else None)"

definition day_rule :: "moment \<Rightarrow> string \<Rightarrow> string" where
  "day_rule today day =
     (let targetDay = indexOf weekdayIndex day;
          targetDate = set_day today targetDay;
          targetDate = (if targetDate < today then add targetDate 1 Week else targetDate)
      in format targetDate)"

definition parseNaturalDate2 :: "moment \<Rightarrow> string \<Rightarrow> moment option \<Rightarrow> string option" where
  "parseNaturalDate2 now dateString baseDate =
     (let today = (case baseDate of Some b \<Rightarrow> b | None \<Rightarrow> now);
          normalizedDate = trim (toLowerCase dateString)
      in
      if normalizedDate = ''today'' \<or> normalizedDate = ''tonight'' then Some (format today)
      else if normalizedDate = ''tomorrow'' then Some (format (add today 1 Day))
      else if normalizedDate = ''yesterday'' then Some (format (add today (-1) Day))
      else case (case match nextRegex False normalizedDate of
                   Some nextMatch \<Rightarrow> next_rule today (grp nextMatch 1)
                 | None \<Rightarrow> None) of
        Some r \<Rightarrow> Some r
      | None \<Rightarrow>
      (case match thisRegex False normalizedDate of
        Some thisMatch \<Rightarrow> this_rule today (grp thisMatch 1)
      | None \<Rightarrow>
      (case match inRegex False normalizedDate of
        Some inMatch \<Rightarrow> amount_rule today (grp inMatch 1) (grp inMatch 2)
      | None \<Rightarrow>
      (case match fromNowRegex False normalizedDate of
        Some fromNowMatch \<Rightarrow> amount_rule today (grp fromNowMatch 1) (grp fromNowMatch 2)
      | None \<Rightarrow>
      (case match ordinalDateRegex False normalizedDate of
        Some ordinalDateMatch \<Rightarrow>
          Some (day_month_rule today (parseInt (grp ordinalDateMatch 1))
            (indexOf monthNames (grp ordinalDateMatch 2)) (group ordinalDateMatch 3))
      | None \<Rightarrow>
      (case match monthDayRegex False normalizedDate of
        Some monthDayMatch \<Rightarrow>
          Some (day_month_rule today (parseInt (grp monthDayMatch 2))
            (indexOf monthNames (grp monthDayMatch 1)) (group monthDayMatch 3))
      | None \<Rightarrow>
      (case end_rule today normalizedDate of
        Some r \<Rightarrow> Some r
      | None \<Rightarrow>
      (case match dayRegex False normalizedDate of
        Some dayMatch \<Rightarrow> Some (day_rule today (grp dayMatch 1))
      | None \<Rightarrow> parse_standard dateString))))))))"

section \<open>Tasks\<close>

text \<open>The glyphs of the task format, as their UTF-8 bytes, and the bullet \<open>U+2022\<close>.\<close>

definition glyph_highest :: string where
  "glyph_highest = [CHR 0xE2, CHR 0x8F, CHR 0xAB]"

definition glyph_high :: string where
  "glyph_high = [CHR 0xF0, CHR 0x9F, CHR 0x94, CHR 0xBC]"

definition glyph_low :: string where
  "glyph_low = [CHR 0xF0, CHR 0x9F, CHR 0x94, CHR 0xBD]"

definition glyph_due :: string where
  "glyph_due = [CHR 0xF0, CHR 0x9F, CHR 0x93, CHR 0x85]"

definition glyph_scheduled :: string where
  "glyph_scheduled = [CHR 0xE2, CHR 0x8F, CHR 0xB3]"

definition glyph_start :: string where
  "glyph_start = [CHR 0xF0, CHR 0x9F, CHR 0x9B, CHR 0xAB]"

definition glyph_created :: string where
  "glyph_created = [CHR 0xE2, CHR 0x9E, CHR 0x95]"

definition glyph_check :: string where
  "glyph_check = [CHR 0xE2, CHR 0x9C, CHR 0x85]"

definition bullet :: string where
  "bullet = [CHR 0xE2, CHR 0x80, CHR 0xA2]"

text \<open>
  A trigger action of the settings, and the settings the functions below read.
\<close>

record TriggerAction =
  keyword :: string
  action :: string
  requiresList :: bool
  enabled :: bool

record Settings =
  taskPriorities :: bool
  defaultTaskTags :: string
  enableTasksIntegration :: bool
  tasksNotePath :: string
  triggerActions :: "TriggerAction list"

text \<open>
  The task record of \<open>parseTasksForObsidianTasks\<close>: \<open>text'\<close> is its field
  \<open>text\<close>, and \<open>dates\<close> is the optional object
  with the keys \<open>due\<close>, \<open>scheduled\<close> and \<open>start\<close>, here a list of key and value
  (an assignment puts its pair in front).
\<close>

record TaskRecord =
  text' :: string
  priority :: string
  tags :: "string list"
  dates :: "(string \<times> string) list option"

text \<open>Whether a string that may be \<open>undefined\<close> or \<open>null\<close> is truthy.\<close>

definition truthy :: "string option \<Rightarrow> bool" where
  "truthy v = (case v of Some x \<Rightarrow> x \<noteq> [] | None \<Rightarrow> False)"

definition str_of :: "string option \<Rightarrow> string" where
  "str_of v = (case v of Some x \<Rightarrow> x | None \<Rightarrow> [])"

text \<open>\<open>[...new Set(tags)]\<close>: the first occurrence of each element, in order.\<close>

fun uniq :: "'a list \<Rightarrow> 'a list" where
  "uniq [] = []"
| "uniq (x # xs) = x # filter (\<lambda>y. y \<noteq> x) (uniq xs)"

text \<open>The default tags: \<open>defaultTaskTags.split(',')\<close>, each trimmed and given a \<open>#\<close>.\<close>

definition defaultTags_of :: "Settings \<Rightarrow> string list" where
  "defaultTags_of settings =
     (if defaultTaskTags settings \<noteq> [] then
        map (\<lambda>t. let tag = trim t in if startsWith tag ''#'' then tag else ''#'' @ tag)
          (split_char CHR '','' (defaultTaskTags settings))
      else [])"

text \<open>
  The priority markers, the same in both functions:
  \<open>/^!!!|^HIGH:/i\<close> and \<open>/^(!!!|HIGH:)/i\<close>, and so on for \<open>!!\<close>, \<open>MEDIUM:\<close>,
  \<open>!\<close> and \<open>LOW:\<close>.
\<close>

definition priorityTest :: "string \<Rightarrow> string \<Rightarrow> regex" where
  "priorityTest marks word = Alt (Seq Bol (Str marks)) (Seq Bol (Str word))"

definition priorityStrip :: "string \<Rightarrow> string \<Rightarrow> regex" where
  "priorityStrip marks word = Seq Bol (Group 1 (Alt (Str marks) (Str word)))"

text \<open>
  The priority step: the glyphs for the three levels are parameters, since
  \<open>processExtractedTasks\<close> adds a space to each. The result is the priority and the text.
\<close>

definition detect_priority :: "string \<Rightarrow> string \<Rightarrow> string \<Rightarrow> string \<Rightarrow> string \<times> string" where
  "detect_priority g3 g2 g1 taskText =
     (if test (priorityTest ''!!!'' ''HIGH:'') True taskText then
        (g3, trim (replace_regex (priorityStrip ''!!!'' ''HIGH:'') True taskText))
      else if test (priorityTest ''!!'' ''MEDIUM:'') True taskText then
        (g2, trim (replace_regex (priorityStrip ''!!'' ''MEDIUM:'') True taskText))
      else if test (priorityTest ''!'' ''LOW:'') True taskText then
        (g1, trim (replace_regex (priorityStrip ''!'' ''LOW:'') True taskText))
      else ([], taskText))"

text \<open>
  The date phrases of \<open>parseTasksForObsidianTasks\<close>, for the words \<open>ws\<close>
  (\<open>by|due\<close>, \<open>scheduled|on\<close>, \<open>start|begin|starting\<close>):
  \<open>/\b(?:ws)\s+(tomorrow|today|monday|...|sunday|next\s+\w+|[\w\s]+?)(?=\s*[-,]|\s*$)/i\<close>
\<close>

definition phraseRegex :: "string list \<Rightarrow> regex" where
  "phraseRegex ws = Seqs [WordB, Alts (map Str ws), Plus (Cls [S]),
     Group 1 (Alts (map Str ([''tomorrow'', ''today''] @ weekdayNames) @
        [Seqs [Str ''next'', Plus (Cls [S]), Plus (Cls [W])], PlusL (Cls [W, S])])),
     Look (Alt (Seq (Star (Cls [S])) (Cls [C CHR ''-'', C CHR '',''])) (Seq (Star (Cls [S])) Eol))]"

text \<open>
  One date step, the same shape in both functions: when the expression matches and the
  phrase it captured parses, the date is stored under \<open>key\<close> and the first occurrence of
  the matched text is cut out of the task text; else nothing changes. The normalizer is
  called with the phrase alone, without a reference date.
\<close>

definition date_step ::
  "moment \<Rightarrow> regex \<Rightarrow> string \<Rightarrow> string \<times> (string \<times> string) list \<Rightarrow> string \<times> (string \<times> string) list" where
  "date_step now r key st =
     (case match r True (fst st) of
        None \<Rightarrow> st
      | Some m \<Rightarrow>
          (let parsedDate = parseNaturalDate now (grp m 1) None in
           if truthy parsedDate
           then (trim (replace_string (fst st) (matched m)), (key, str_of parsedDate) # snd st)
           else st))"

text \<open>\<open>/#[\w-]+/g\<close>, \<open>/^[-*\<bullet>]\s*/\<close> and \<open>/[,\-]+$/\<close>.\<close>

definition tagRegex :: regex where
  "tagRegex = Seq (Chr CHR ''#'') (Plus (Cls [W, C CHR ''-'']))"

definition bulletRegex :: regex where
  "bulletRegex = Seqs [Bol, Alt (Cls [C CHR ''-'', C CHR ''*'']) (Str bullet), Star (Cls [S])]"

definition trailingRegex :: regex where
  "trailingRegex = Seq (Plus (Cls [C CHR '','', C CHR ''-''])) Eol"

text \<open>
  The body of the loop of \<open>parseTasksForObsidianTasks\<close> for one line: the record pushed,
  or \<open>None\<close> when the line is skipped.
\<close>

definition parse_task_line :: "Settings \<Rightarrow> moment \<Rightarrow> string \<Rightarrow> TaskRecord option" where
  "parse_task_line settings now line =
     (let trimmed = trim line in
      if trimmed = [] then None
      else
        (let taskText = replace_regex bulletRegex False trimmed;
             (priority, taskText) = detect_priority glyph_highest glyph_high glyph_low taskText;
             (taskText, dates) = date_step now (phraseRegex [''by'', ''due'']) ''due'' (taskText, []);
             (taskText, dates) = date_step now (phraseRegex [''scheduled'', ''on'']) ''scheduled'' (taskText, dates);
             (taskText, dates) = date_step now (phraseRegex [''start'', ''begin'', ''starting'']) ''start'' (taskText, dates);
             tagMatches = match_all tagRegex False None taskText;
             taskText = (if tagMatches \<noteq> [] then trim (replace_all tagRegex False None taskText) else taskText);
             tags = tagMatches @ defaultTags_of settings;
             taskText = trim (replace_regex trailingRegex False taskText)
         in
         if taskText \<noteq> [] then
           Some \<lparr>text' = taskText, priority = priority, tags = uniq tags,
             dates = (if dates \<noteq> [] then Some dates else None)\<rparr>
         else None))"

definition parseTasksForObsidianTasks :: "Settings \<Rightarrow> moment \<Rightarrow> string \<Rightarrow> TaskRecord list" where
  "parseTasksForObsidianTasks settings now content =
     List.map_filter (parse_task_line settings now) (split_char CHR 0x0A content)"

text \<open>
  \<open>formatTaskForObsidianTasks\<close>; the creation date is the clock
  (\<open>window.moment().format('YYYY-MM-DD')\<close>).
\<close>

definition date_part :: "string \<Rightarrow> (string \<times> string) list \<Rightarrow> string \<Rightarrow> string" where
  "date_part glyph ds key =
     (if truthy (map_of ds key) then '' '' @ glyph @ '' '' @ str_of (map_of ds key) else [])"

definition formatTaskForObsidianTasks :: "Settings \<Rightarrow> moment \<Rightarrow> TaskRecord \<Rightarrow> string" where
  "formatTaskForObsidianTasks settings now task =
     (let formatted = ''- [ ] '';
          formatted = (if taskPriorities settings \<and> priority task \<noteq> []
                       then formatted @ priority task @ '' '' else formatted);
          formatted = formatted @ text' task;
          formatted = (case dates task of
                         Some ds \<Rightarrow>
                           formatted @ date_part glyph_due ds ''due'' @
                             date_part glyph_scheduled ds ''scheduled'' @
                             date_part glyph_start ds ''start''
                       | None \<Rightarrow> formatted);
          formatted = formatted @ '' '' @ glyph_created @ '' '' @ format now;
          formatted = (if tags task \<noteq> [] then formatted @ '' '' @ join '' '' (tags task)
                       else formatted)
      in formatted)"






section \<open>Triggers\<close>

text \<open>
  A detected trigger; \<open>triggerAction\<close> is its field \<open>action\<close> (the name is taken by
  the field of \<open>TriggerAction\<close>).
\<close>

record DetectedTrigger =
  trigger :: string
  content :: string
  triggerAction :: TriggerAction

text \<open>
  \<open>/(?:<u>([\w\s]+)<\/u>|__([\w\s]+)__)\s*:?\s*([\s\S]*?)(?=(?:<u>|__|\n\n|$))/gi\<close>
  and \<open>/^Translate\s+(?:to|into)\s+(\w+)$/i\<close>
\<close>

definition underlineRegex :: regex where
  "underlineRegex = Seqs [
     Alt (Seqs [Str ''<u>'', Group 1 (Plus (Cls [W, S])), Str ''</u>''])
         (Seqs [Str ''__'', Group 2 (Plus (Cls [W, S])), Str ''__'']),
     Star (Cls [S]), Opt (Chr CHR '':''), Star (Cls [S]),
     Group 3 (StarL (NCls [])),
     Look (Alts [Str ''<u>'', Str ''__'', Str [CHR 0x0A, CHR 0x0A], Eol])]"

definition translateRegex :: regex where
  "translateRegex = Seqs [Bol, Str ''Translate'', Plus (Cls [S]), Alt (Str ''to'') (Str ''into''),
     Plus (Cls [S]), Group 1 (Plus (Cls [W])), Eol]"

text \<open>
  The body of the \<open>while\<close> loop of \<open>detectTriggerWords\<close> for one match: the triggers it
  pushes (none or one).
\<close>

definition trigger_of_match :: "Settings \<Rightarrow> rmatch \<Rightarrow> DetectedTrigger list" where
  "trigger_of_match settings m =
     (let underlinedText = trim (if truthy (group m 1) then grp m 1 else grp m 2);
          content = trim (grp m 3)
      in
      case match translateRegex True underlinedText of
        Some translateMatch \<Rightarrow>
          (let targetLanguage = grp translateMatch 1 in
           case find (\<lambda>a. action a = ''translate'' \<and> enabled a) (triggerActions settings) of
             Some translateAction \<Rightarrow>
               [\<lparr>trigger = ''Translate to '' @ targetLanguage, content = content,
                 triggerAction = translateAction\<lparr>keyword := ''Translate to '' @ targetLanguage\<rparr>\<rparr>]
           | None \<Rightarrow> [])
      | None \<Rightarrow>
          (let firstWord = takeWhile (\<lambda>c. \<not> is_space c) underlinedText in
           case find (\<lambda>a. toLowerCase (keyword a) = toLowerCase firstWord \<and> enabled a)
                  (triggerActions settings) of
             Some act \<Rightarrow> [\<lparr>trigger = firstWord, content = content, triggerAction = act\<rparr>]
           | None \<Rightarrow> []))"

text \<open>
  The loop \<open>while ((match = underlineRegex.exec(text)) !== null)\<close>: each search starts
  where the last match ended (\<open>lastIndex\<close>); \<open>p\<close> is the character before \<open>s\<close>
  and \<open>s'\<close> the text after the match. A match of \<open>underlineRegex\<close> takes at least the
  two delimiters, so \<open>s'\<close> is shorter than \<open>s\<close>; the test makes the recursion
  well-founded (an empty match would keep the loop of the source at the same place for
  ever).
\<close>

function detect_loop :: "Settings \<Rightarrow> char option \<Rightarrow> string \<Rightarrow> DetectedTrigger list" where
  "detect_loop settings p s =
     (case exec_from underlineRegex True 0 p s of
        None \<Rightarrow> []
      | Some m \<Rightarrow>
          (let s' = drop (index m + length (matched m)) s in
           if length s' < length s
           then trigger_of_match settings m @ detect_loop settings (Some (last (matched m))) s'
           else []))"
  by pat_completeness auto
termination
  by (relation "measure (\<lambda>(settings, p, s). length s)") auto

declare detect_loop.simps [simp del]

definition detectTriggerWords :: "Settings \<Rightarrow> string \<Rightarrow> DetectedTrigger list" where
  "detectTriggerWords settings text = detect_loop settings None text"

text \<open>
  \<open>processTriggerWithGemini\<close>: the request is determined by the trigger and the settings;
  what comes back is decided outside the plugin, so it is a parameter: the call throws,
  or returns a response with or without a text.
\<close>

datatype api_result = RequestThrows | Response "string option"

definition processTriggerWithGemini :: "api_result \<Rightarrow> DetectedTrigger \<Rightarrow> string" where
  "processTriggerWithGemini res t =
     (case res of
        RequestThrows \<Rightarrow>
          ''### '' @ trigger t @ '' - Processing Failed'' @ [CHR 0x0A] @
            ''Could not process this trigger action.''
      | Response r \<Rightarrow>
          if truthy r then ''### '' @ trigger t @ '' Results'' @ [CHR 0x0A] @ str_of r else [])"

text \<open>
  What \<open>processTriggersInText\<close> gets from outside: \<open>requestUrl i t\<close> is the outcome of
  the request for the trigger \<open>t\<close>, the \<open>i\<close>-th of the document; \<open>relatedNotes\<close> is
  the result of \<open>findRelatedNotesByTags(parseDetectedTags(text))\<close>; \<open>vaultWrites\<close>
  tells whether the writes of \<open>addTasksToTasksNote\<close> to the vault succeed; \<open>clock\<close> is
  the current day.
\<close>

record World =
  requestUrl :: "nat \<Rightarrow> DetectedTrigger \<Rightarrow> api_result"
  relatedNotes :: "string \<Rightarrow> string"
  vaultWrites :: bool
  clock :: moment

text \<open>\<open>addTasksToTasksNote\<close>: the number of tasks added, 0 after any failure.\<close>

definition addTasksToTasksNote :: "Settings \<Rightarrow> World \<Rightarrow> string \<Rightarrow> nat" where
  "addTasksToTasksNote settings world tasksContent =
     (let tasks = parseTasksForObsidianTasks settings (clock world) tasksContent in
      if tasks = [] then 0
      else if vaultWrites world then length tasks
      else 0)"

text \<open>The response pushed for one trigger of the loop (none or one).\<close>

definition trigger_response ::
  "Settings \<Rightarrow> World \<Rightarrow> string \<Rightarrow> bool \<Rightarrow> nat \<Rightarrow> DetectedTrigger \<Rightarrow> string list" where
  "trigger_response settings world text processedTasks i t =
     (if keyword (triggerAction t) = ''Tasks'' \<and> processedTasks then
        [''### Tasks'' @ [CHR 0x0A] @ glyph_check @ '' '' @
          digits (length (filter (\<lambda>l. trim l \<noteq> []) (split_char CHR 0x0A (content t)))) @
          '' tasks added to [['' @ replace_string (tasksNotePath settings) ''.md'' @ '']]'']
      else if action (triggerAction t) = ''taglinks'' \<or> action (triggerAction t) = ''related'' then
        [relatedNotes world text]
      else
        (let response = processTriggerWithGemini (requestUrl world i t) t in
         if response \<noteq> [] then [response] else []))"

fun trigger_loop ::
  "Settings \<Rightarrow> World \<Rightarrow> string \<Rightarrow> bool \<Rightarrow> nat \<Rightarrow> DetectedTrigger list \<Rightarrow> string list" where
  "trigger_loop settings world text processedTasks i [] = []"
| "trigger_loop settings world text processedTasks i (t # ts) =
     trigger_response settings world text processedTasks i t @
       trigger_loop settings world text processedTasks (Suc i) ts"

text \<open>
  \<open>processTriggersInText\<close>, with the triggers already detected, and as the plugin calls
  it.
\<close>

definition tasks_processed :: "Settings \<Rightarrow> World \<Rightarrow> DetectedTrigger list \<Rightarrow> bool" where
  "tasks_processed settings world triggers =
     (case find (\<lambda>t. keyword (triggerAction t) = ''Tasks'') triggers of
        Some tasksTrigger \<Rightarrow>
          enableTasksIntegration settings \<and>
          addTasksToTasksNote settings world (content tasksTrigger) > 0
      | None \<Rightarrow> False)"

definition process_triggers :: "Settings \<Rightarrow> World \<Rightarrow> string \<Rightarrow> DetectedTrigger list \<Rightarrow> string" where
  "process_triggers settings world text triggers =
     (let processedTasks = tasks_processed settings world triggers in
      if triggers = [] then text
      else
        (let triggerResponses = trigger_loop settings world text processedTasks 0 triggers in
         if triggerResponses \<noteq> [] then
           text @ [CHR 0x0A, CHR 0x0A] @ ''---'' @ [CHR 0x0A] @ ''## Triggered Actions'' @
             [CHR 0x0A, CHR 0x0A] @ join [CHR 0x0A, CHR 0x0A] triggerResponses
         else text))"

text \<open>
  A trigger goes to \<open>processTriggerWithGemini\<close> unless the loop handles it as the tasks
  trigger already filed or as a search for related notes.
\<close>

definition to_gemini :: "bool \<Rightarrow> DetectedTrigger \<Rightarrow> bool" where
  "to_gemini processedTasks t =
     (\<not> (keyword (triggerAction t) = ''Tasks'' \<and> processedTasks) \<and>
      action (triggerAction t) \<noteq> ''taglinks'' \<and> action (triggerAction t) \<noteq> ''related'')"

definition processTriggersInText :: "Settings \<Rightarrow> World \<Rightarrow> string \<Rightarrow> string" where
  "processTriggersInText settings world text =
     process_triggers settings world text (detectTriggerWords settings text)"

text \<open>The default trigger actions and the default settings of the plugin.\<close>

definition DEFAULT_TRIGGER_ACTIONS :: "TriggerAction list" where
  "DEFAULT_TRIGGER_ACTIONS = [
     \<lparr>keyword = ''Research'', action = ''research'', requiresList = True, enabled = True\<rparr>,
     \<lparr>keyword = ''Expand'', action = ''expand'', requiresList = False, enabled = True\<rparr>,
     \<lparr>keyword = ''Summarize'', action = ''summarize'', requiresList = False, enabled = True\<rparr>,
     \<lparr>keyword = ''Summarise'', action = ''summarize'', requiresList = False, enabled = True\<rparr>,
     \<lparr>keyword = ''Actions'', action = ''actions'', requiresList = False, enabled = True\<rparr>,
     \<lparr>keyword = ''Tasks'', action = ''tasks'', requiresList = True, enabled = True\<rparr>,
     \<lparr>keyword = ''Analyze'', action = ''analyze'', requiresList = False, enabled = True\<rparr>,
     \<lparr>keyword = ''Analyse'', action = ''analyze'', requiresList = False, enabled = True\<rparr>,
     \<lparr>keyword = ''Define'', action = ''define'', requiresList = True, enabled = True\<rparr>,
     \<lparr>keyword = ''Translate'', action = ''translate'', requiresList = False, enabled = True\<rparr>,
     \<lparr>keyword = ''Rewrite'', action = ''rewrite'', requiresList = False, enabled = True\<rparr>,
     \<lparr>keyword = ''Questions'', action = ''questions'', requiresList = False, enabled = True\<rparr>,
     \<lparr>keyword = ''Connect'', action = ''connect'', requiresList = False, enabled = True\<rparr>,
     \<lparr>keyword = ''Organise'', action = ''organize'', requiresList = False, enabled = True\<rparr>,
     \<lparr>keyword = ''Organize'', action = ''organize'', requiresList = False, enabled = True\<rparr>,
     \<lparr>keyword = ''TagLinks'', action = ''taglinks'', requiresList = False, enabled = True\<rparr>,
     \<lparr>keyword = ''Related'', action = ''related'', requiresList = False, enabled = True\<rparr>]"

definition DEFAULT_SETTINGS :: Settings where
  "DEFAULT_SETTINGS = \<lparr>taskPriorities = True, defaultTaskTags = ''#task'',
     enableTasksIntegration = False, tasksNotePath = ''Tasks/Inbox.md'',
     triggerActions = DEFAULT_TRIGGER_ACTIONS\<rparr>"

section \<open>FolderMonitor\<close>

text \<open>
  A child of the watch folder is a file (\<open>TFile\<close>, with its \<open>stat.ctime\<close> in
  milliseconds) or something else (a sub-folder), which \<open>child instanceof TFile\<close> skips.
\<close>

record TFile =
  path :: string
  name :: string
  ctime :: int

datatype TAbstractFile = File TFile | Folder string

text \<open>
  The fields of \<open>FolderMonitorSettings\<close> that the poll reads or writes, and the fields of
  the \<open>FolderMonitor\<close> object: the flag \<open>isProcessing\<close> and the set
  \<open>processedFiles\<close> of the paths handled in this session.
\<close>

record FolderMonitor =
  filePattern :: string
  lastProcessedTime :: int
  isProcessing :: bool
  processedFiles :: "string set"

text \<open>
  \<open>getMatchingFiles\<close> turns \<open>filePattern\<close> into a regular expression: the special
  characters \<open>.+^${}()|[]\\<close> are escaped and so stand for themselves, as every other
  character but \<open>*\<close> and \<open>?\<close> does; \<open>*\<close> becomes \<open>.*\<close> and \<open>?\<close> becomes
  \<open>.\<close>. The expression is \<open>^<pattern>\.(png|pdf)$\<close> with the flag \<open>i\<close>, and
  \<open>regex_test p s\<close> is its \<open>test\<close> on the file name \<open>s\<close>.
\<close>

fun regexPattern :: "string \<Rightarrow> regex list" where
  "regexPattern [] = []"
| "regexPattern (c # cs) =
     (if c = CHR ''*'' then Star Dot # regexPattern cs
      else if c = CHR ''?'' then Dot # regexPattern cs
      else Chr c # regexPattern cs)"

definition regex_test :: "string \<Rightarrow> string \<Rightarrow> bool" where
  "regex_test p s =
     test (Seqs ([Bol] @ regexPattern p @
        [Chr CHR ''.'', Alt (Str ''png'') (Str ''pdf''), Eol])) True s"

fun getMatchingFiles :: "FolderMonitor \<Rightarrow> TAbstractFile list \<Rightarrow> TFile list" where
  "getMatchingFiles m [] = []"
| "getMatchingFiles m (Folder d # children) = getMatchingFiles m children"
| "getMatchingFiles m (File child # children) =
     (if \<not> regex_test (filePattern m) (name child) then getMatchingFiles m children
      else if ctime child \<le> lastProcessedTime m then getMatchingFiles m children
      else if path child \<in> processedFiles m then getMatchingFiles m children
      else child # getMatchingFiles m children)"

text \<open>
  What happens to one file inside the \<open>try\<close> block of \<open>processFiles\<close>:
  \<open>processPdfFile\<close> or \<open>processImageFile\<close> throws (before the file is marked),
  or the file is marked and \<open>handleProcessedFile\<close> throws, or the block completes.
  It is decided outside the monitor (the external call, the vault), so it is a parameter.
\<close>

datatype outcome = ProcessingThrows | PostActionThrows | Completes

text \<open>
  One iteration of the loop of \<open>processFiles\<close>: an exception is caught and the loop
  goes on; \<open>processedFiles.add\<close> is reached unless processing threw.
\<close>

definition processFile :: "(TFile \<Rightarrow> outcome) \<Rightarrow> FolderMonitor \<Rightarrow> TFile \<Rightarrow> FolderMonitor" where
  "processFile run m file =
     (case run file of
        ProcessingThrows \<Rightarrow> m
      | PostActionThrows \<Rightarrow> m\<lparr>processedFiles := insert (path file) (processedFiles m)\<rparr>
      | Completes \<Rightarrow> m\<lparr>processedFiles := insert (path file) (processedFiles m)\<rparr>)"

fun processFiles_loop :: "(TFile \<Rightarrow> outcome) \<Rightarrow> FolderMonitor \<Rightarrow> TFile list \<Rightarrow> FolderMonitor" where
  "processFiles_loop run m [] = m"
| "processFiles_loop run m (file # files) = processFiles_loop run (processFile run m file) files"

text \<open>
  \<open>processFiles\<close>: the loop, then \<open>settings.lastProcessedTime = Date.now()\<close>;
  \<open>now\<close> is the clock at that moment.
\<close>

definition processFiles :: "(TFile \<Rightarrow> outcome) \<Rightarrow> int \<Rightarrow> FolderMonitor \<Rightarrow> TFile list \<Rightarrow> FolderMonitor" where
  "processFiles run now m files = (processFiles_loop run m files)\<lparr>lastProcessedTime := now\<rparr>"

text \<open>
  \<open>checkFolder\<close>, one poll: \<open>folder\<close> is \<open>None\<close> when the watch folder is not found,
  else its children.
\<close>

definition checkFolder ::
  "(TFile \<Rightarrow> outcome) \<Rightarrow> int \<Rightarrow> TAbstractFile list option \<Rightarrow> FolderMonitor \<Rightarrow> FolderMonitor" where
  "checkFolder run now folder m =
     (if isProcessing m then m
      else case folder of
        None \<Rightarrow> m
      | Some children \<Rightarrow>
          (let files = getMatchingFiles m children in
           if files = [] then m
           else (processFiles run now (m\<lparr>isProcessing := True\<rparr>) files)\<lparr>isProcessing := False\<rparr>))"

text \<open>
  A run of later polls: each has its own clock reading, folder listing and outcomes.
\<close>

fun polls ::
  "((TFile \<Rightarrow> outcome) \<times> int \<times> TAbstractFile list option) list \<Rightarrow> FolderMonitor \<Rightarrow> FolderMonitor" where
  "polls [] m = m"
| "polls ((run, now, folder) # ps) m = polls ps (checkFolder run now folder m)"

text \<open>
  The files of the scenario: \<open>scan-001.png\<close> and \<open>scan-002.png\<close> in the watch folder
  \<open>Inbox\<close>, with the default pattern \<open>scan-*\<close>.
\<close>

definition scan001 :: "int \<Rightarrow> TFile" where
  "scan001 c = \<lparr>path = ''Inbox/scan-001.png'', name = ''scan-001.png'', ctime = c\<rparr>"


definition monitor0 :: "int \<Rightarrow> FolderMonitor" where
  "monitor0 t = \<lparr>filePattern = ''scan-*'', lastProcessedTime = t, isProcessing = False,
     processedFiles = {}\<rparr>"

text \<open>The clock readings of a run of polls.\<close>

definition clocks ::
  "((TFile \<Rightarrow> outcome) \<times> int \<times> TAbstractFile list option) list \<Rightarrow> int list" where
  "clocks ps = map (\<lambda>p. fst (snd p)) ps"

text \<open>
  The number of days from a day whose weekday is \<open>d\<close> to the next day, strictly later,
  whose weekday is \<open>t\<close>.
\<close>

definition next_offset :: "int \<Rightarrow> int \<Rightarrow> int" where
  "next_offset d t = (if d \<ge> t then 7 - (d - t) else t - d)"

text \<open>An outside world, two triggers and a reference day for concrete runs.\<close>

definition failing_world :: World where
  "failing_world =
     \<lparr>requestUrl = (\<lambda>i t. if i = 0 then RequestThrows else Response (Some ''Detailed text'')),
      relatedNotes = (\<lambda>text. []), vaultWrites = True, clock = 19793\<rparr>"

definition research_trigger :: DetectedTrigger where
  "research_trigger = \<lparr>trigger = ''Research'', content = ''quantum dots'',
     triggerAction = \<lparr>keyword = ''Research'', action = ''research'', requiresList = True,
       enabled = True\<rparr>\<rparr>"

definition expand_trigger :: DetectedTrigger where
  "expand_trigger = \<lparr>trigger = ''Expand'', content = ''idea'',
     triggerAction = \<lparr>keyword = ''Expand'', action = ''expand'', requiresList = False,
       enabled = True\<rparr>\<rparr>"

text \<open>A task record with a priority, three dates and two tags.\<close>

definition sample_task :: TaskRecord where
  "sample_task = \<lparr>text' = ''Finish report'', priority = glyph_highest, tags = [''#urgent'', ''#task''],
     dates = Some [(''due'', ''2024-03-12''), (''scheduled'', ''2024-03-11''), (''start'', ''2024-03-10'')]\<rparr>"

text \<open>
  A hashtag in a text, as \<open>/#[\w-]+/\<close> finds it: a \<open>#\<close> followed by a word character
  or a hyphen. \<open>tag_at\<close> tests the start of the text and \<open>has_tag\<close> every position.
\<close>

definition tag_char :: "char \<Rightarrow> bool" where
  "tag_char c = (is_word c \<or> c = CHR ''-'')"




section \<open>FolderMonitor: eligibility and the cutoff\<close>

lemma getMatchingFiles_iff:
  "f \<in> set (getMatchingFiles m children) \<longleftrightarrow>
     File f \<in> set children \<and> regex_test (filePattern m) (name f) \<and>
     lastProcessedTime m < ctime f \<and> path f \<notin> processedFiles m"
  by (induction m children rule: getMatchingFiles.induct) auto

lemma processFile_fields [simp]:
  "lastProcessedTime (processFile run m file) = lastProcessedTime m"
  "filePattern (processFile run m file) = filePattern m"
  "isProcessing (processFile run m file) = isProcessing m"
  by (simp_all add: processFile_def split: outcome.splits)

lemma processFiles_loop_fields [simp]:
  "lastProcessedTime (processFiles_loop run m files) = lastProcessedTime m"
  "filePattern (processFiles_loop run m files) = filePattern m"
  "isProcessing (processFiles_loop run m files) = isProcessing m"
  by (induction files arbitrary: m) simp_all

lemma checkFolder_lastProcessedTime:
  "lastProcessedTime (checkFolder run now folder m) =
     (if \<not> isProcessing m \<and> (\<exists>children. folder = Some children \<and> getMatchingFiles m children \<noteq> [])
      then now else lastProcessedTime m)"
  by (auto simp: checkFolder_def processFiles_def Let_def split: option.splits)


lemma scan_names_match:
  "regex_test ''scan-*'' ''scan-001.png''" "regex_test ''scan-*'' ''scan-002.png''"
  by code_simp+



section \<open>FolderMonitor: a file whose processing failed\<close>

lemma processFile_processedFiles:
  "processedFiles (processFile run m file) =
     (if run file = ProcessingThrows then processedFiles m
      else insert (path file) (processedFiles m))"
  by (simp add: processFile_def split: outcome.splits)

lemma processFiles_loop_processedFiles:
  "processedFiles (processFiles_loop run m files) =
     processedFiles m \<union> path ` {g \<in> set files. run g \<noteq> ProcessingThrows}"
  by (induction files arbitrary: m) (auto simp: processFile_processedFiles)

lemma checkFolder_processedFiles:
  "processedFiles (checkFolder run now (Some children) m) =
     (if isProcessing m then processedFiles m
      else processedFiles m \<union>
        path ` {g \<in> set (getMatchingFiles m children). run g \<noteq> ProcessingThrows})"
  by (simp add: checkFolder_def processFiles_def Let_def processFiles_loop_processedFiles)

lemma polls_cutoff:
  "c \<le> lastProcessedTime m \<Longrightarrow> \<forall>t \<in> set (clocks ps). c \<le> t \<Longrightarrow>
   c \<le> lastProcessedTime (polls ps m)"
proof (induction ps arbitrary: m)
  case Nil
  then show ?case by simp
next
  case (Cons p ps)
  obtain run now folder where p: "p = (run, now, folder)" by (cases p)
  have "c \<le> lastProcessedTime (checkFolder run now folder m)"
    using Cons.prems by (simp add: checkFolder_lastProcessedTime p clocks_def)
  then show ?case
    using Cons.IH Cons.prems by (simp add: p clocks_def)
qed

text \<open>
  Claim C10. A file selected by a poll whose processing throws is caught by the loop, which
  goes on; the file's path is not added to the set of processed files (no other file of
  the batch has its path), and the poll still ends by setting \<open>lastProcessedTime\<close> to
  the clock, which is not before the file's creation time. From then on, whatever later
  polls do (with clock readings that are not before the file's creation time), no poll
  selects the file, in any listing of the folder.
\<close>

theorem failed_file_never_retried:
  assumes "f \<in> set (getMatchingFiles m children)"
    and "\<not> isProcessing m"
    and "run f = ProcessingThrows"
    and "\<forall>g \<in> set (getMatchingFiles m children). path g = path f \<longrightarrow> run g = ProcessingThrows"
    and "ctime f \<le> now"
    and "\<forall>t \<in> set (clocks ps). ctime f \<le> t"
  shows "path f \<notin> processedFiles (checkFolder run now (Some children) m) \<and>
         lastProcessedTime (checkFolder run now (Some children) m) = now \<and>
         f \<notin> set (getMatchingFiles (polls ps (checkFolder run now (Some children) m)) children')"
proof -
  let ?m' = "checkFolder run now (Some children) m"
  have sel: "getMatchingFiles m children \<noteq> []"
    using assms(1) by auto
  have "path f \<notin> processedFiles m"
    using assms(1) by (simp add: getMatchingFiles_iff)
  then have notin: "path f \<notin> processedFiles ?m'"
    using assms(2,4) by (auto simp: checkFolder_processedFiles)
  have lpt: "lastProcessedTime ?m' = now"
    using assms(2) sel by (simp add: checkFolder_lastProcessedTime)
  have "ctime f \<le> lastProcessedTime (polls ps ?m')"
    using assms(5,6) lpt by (intro polls_cutoff) simp_all
  then have "f \<notin> set (getMatchingFiles (polls ps ?m') children')"
    by (simp add: getMatchingFiles_iff)
  with notin lpt show ?thesis by simp
qed

theorem failed_file_never_retried_witness:
  "scan001 1000 \<in> set (getMatchingFiles (monitor0 0) [File (scan001 1000)]) \<and>
   \<not> isProcessing (monitor0 0) \<and>
   (1000::int) \<le> 2000 \<and>
   path (scan001 1000) \<notin>
     processedFiles (checkFolder (\<lambda>f. ProcessingThrows) 2000 (Some [File (scan001 1000)]) (monitor0 0)) \<and>
   lastProcessedTime
     (checkFolder (\<lambda>f. ProcessingThrows) 2000 (Some [File (scan001 1000)]) (monitor0 0)) = 2000 \<and>
   scan001 1000 \<notin> set (getMatchingFiles
     (polls [(\<lambda>f. Completes, 3000, Some [File (scan001 1000)])]
        (checkFolder (\<lambda>f. ProcessingThrows) 2000 (Some [File (scan001 1000)]) (monitor0 0)))
     [File (scan001 1000)])"
proof -
  have h1: "scan001 1000 \<in> set (getMatchingFiles (monitor0 0) [File (scan001 1000)])"
    using scan_names_match by (simp add: monitor0_def scan001_def)
  have h2: "\<not> isProcessing (monitor0 0)"
    by (simp add: monitor0_def)
  have h3: "(\<lambda>f::TFile. ProcessingThrows) (scan001 1000) = ProcessingThrows"
    by simp
  have h4: "\<forall>g \<in> set (getMatchingFiles (monitor0 0) [File (scan001 1000)]).
      path g = path (scan001 1000) \<longrightarrow> (\<lambda>f::TFile. ProcessingThrows) g = ProcessingThrows"
    by simp
  have h5: "ctime (scan001 1000) \<le> 2000"
    by (simp add: scan001_def)
  have h6: "\<forall>t \<in> set (clocks [(\<lambda>f::TFile. Completes, 3000, Some [File (scan001 1000)])]).
      ctime (scan001 1000) \<le> t"
    by (simp add: clocks_def scan001_def)
  show ?thesis
    using failed_file_never_retried [OF h1 h2 h3 h4 h5 h6, of "[File (scan001 1000)]"] h1 h2
    by simp
qed

section \<open>Triggers: a failed request does not stop the others\<close>

lemma includes_str_iff: "includes_str s p \<longleftrightarrow> (\<exists>pre post. s = pre @ p @ post)"
proof (induction s)
  case Nil
  then show ?case by auto
next
  case (Cons c s)
  have a: "startsWith (c # s) p \<longleftrightarrow> (\<exists>post. c # s = p @ post)"
    unfolding startsWith_def
    by (metis append_eq_conv_conj append_take_drop_id)
  show ?case
  proof
    assume "includes_str (c # s) p"
    then consider "startsWith (c # s) p" | "includes_str s p" by auto
    then show "\<exists>pre post. c # s = pre @ p @ post"
    proof cases
      case 1
      then obtain post where "c # s = [] @ p @ post" using a by auto
      then show ?thesis by blast
    next
      case 2
      then obtain pre post where "s = pre @ p @ post" using Cons.IH by auto
      then have "c # s = (c # pre) @ p @ post" by simp
      then show ?thesis by blast
    qed
  next
    assume "\<exists>pre post. c # s = pre @ p @ post"
    then obtain pre post where e: "c # s = pre @ p @ post" by auto
    show "includes_str (c # s) p"
    proof (cases pre)
      case Nil
      then have "startsWith (c # s) p" using e a by auto
      then show ?thesis by simp
    next
      case (Cons x xs)
      then have "s = xs @ p @ post" using e by simp
      then show ?thesis using Cons.IH by auto
    qed
  qed
qed

lemma join_mem: "x \<in> set xs \<Longrightarrow> \<exists>pre post. join sep xs = pre @ x @ post"
proof (induction sep xs rule: join.induct)
  case (1 sep)
  then show ?case by simp
next
  case (2 sep x')
  then have "join sep [x'] = [] @ x @ []" by simp
  then show ?case by blast
next
  case (3 sep x' y ys)
  show ?case
  proof (cases "x = x'")
    case True
    then have "join sep (x' # y # ys) = [] @ x @ (sep @ join sep (y # ys))" by simp
    then show ?thesis by blast
  next
    case False
    then have "x \<in> set (y # ys)" using 3 by simp
    then obtain pre post where "join sep (y # ys) = pre @ x @ post" using 3 by blast
    then have "join sep (x' # y # ys) = (x' @ sep @ pre) @ x @ post" by simp
    then show ?thesis by blast
  qed
qed

lemma trigger_loop_append:
  "trigger_loop settings world text pt i (ts1 @ ts2) =
     trigger_loop settings world text pt i ts1 @ trigger_loop settings world text pt (i + length ts1) ts2"
  by (induction ts1 arbitrary: i) simp_all

lemma to_gemini_tests:
  assumes "to_gemini pt t"
  shows "\<not> (keyword (triggerAction t) = ''Tasks'' \<and> pt)"
    "\<not> (action (triggerAction t) = ''taglinks'' \<or> action (triggerAction t) = ''related'')"
  using assms unfolding to_gemini_def by blast+

lemma processTriggerWithGemini_results:
  assumes "r \<noteq> []"
  shows "processTriggerWithGemini (Response (Some r)) t =
           ''### '' @ trigger t @ '' Results'' @ [CHR 0x0A] @ r"
    "processTriggerWithGemini (Response (Some r)) t \<noteq> []"
  using assms by (simp_all add: processTriggerWithGemini_def truthy_def str_of_def)

lemma processTriggerWithGemini_failed:
  "processTriggerWithGemini RequestThrows t =
     ''### '' @ trigger t @ '' - Processing Failed'' @ [CHR 0x0A] @
       ''Could not process this trigger action.''"
  "processTriggerWithGemini RequestThrows t \<noteq> []"
  by (simp_all add: processTriggerWithGemini_def)

lemma trigger_response_results:
  assumes "to_gemini pt t" "requestUrl world i t = Response (Some r)" "r \<noteq> []"
  shows "trigger_response settings world text pt i t =
           [''### '' @ trigger t @ '' Results'' @ [CHR 0x0A] @ r]"
  unfolding trigger_response_def Let_def assms(2)
  apply (simp only: to_gemini_tests [OF assms(1)] processTriggerWithGemini_results(2) [OF assms(3)]
        if_False if_True not_False_eq_True)
  apply (simp only: processTriggerWithGemini_results(1) [OF assms(3)])
  done

lemma trigger_response_failed:
  assumes "to_gemini pt t" "requestUrl world i t = RequestThrows"
  shows "trigger_response settings world text pt i t =
           [''### '' @ trigger t @ '' - Processing Failed'' @ [CHR 0x0A] @
              ''Could not process this trigger action.'']"
  unfolding trigger_response_def Let_def assms(2)
  apply (simp only: to_gemini_tests [OF assms(1)] processTriggerWithGemini_failed(2)
        if_False if_True not_False_eq_True)
  apply (simp only: processTriggerWithGemini_failed(1))
  done

lemma trigger_loop_nth:
  assumes "j < length ts" "to_gemini pt (ts ! j)"
    "requestUrl world (i + j) (ts ! j) = Response (Some r)" "r \<noteq> []"
  shows "''### '' @ trigger (ts ! j) @ '' Results'' @ [CHR 0x0A] @ r
           \<in> set (trigger_loop settings world text pt i ts)"
  using assms
proof (induction ts arbitrary: i j)
  case Nil
  then show ?case by simp
next
  case (Cons t ts)
  show ?case
  proof (cases j)
    case 0
    have g: "to_gemini pt t" and q: "requestUrl world i t = Response (Some r)"
      using Cons.prems 0 by simp_all
    have "trigger_response settings world text pt i t =
        [''### '' @ trigger t @ '' Results'' @ [CHR 0x0A] @ r]"
      using g q \<open>r \<noteq> []\<close> by (rule trigger_response_results)
    then show ?thesis using 0 by simp
  next
    case (Suc j')
    then have "''### '' @ trigger (ts ! j') @ '' Results'' @ [CHR 0x0A] @ r
        \<in> set (trigger_loop settings world text pt (Suc i) ts)"
      using Cons.prems by (intro Cons.IH) simp_all
    then show ?thesis using Suc by simp
  qed
qed

text \<open>
  Claim C4. When the request for one trigger throws, the loop puts the block
  \<open>### <trigger> - Processing Failed\<close> in its place and goes on: the merged output is
  the text, the heading \<open>## Triggered Actions\<close> and the blocks of the triggers before,
  the placeholder, and the blocks of the triggers after, in this order; and every later
  trigger whose request returns a text has its block \<open>### <trigger> Results\<close> in the
  output.
\<close>

theorem trigger_failure_contained:
  assumes "requestUrl world (length ts1) t = RequestThrows"
    and "to_gemini (tasks_processed settings world (ts1 @ t # ts2)) t"
  shows "process_triggers settings world text (ts1 @ t # ts2) =
           text @ [CHR 0x0A, CHR 0x0A] @ ''---'' @ [CHR 0x0A] @ ''## Triggered Actions'' @
             [CHR 0x0A, CHR 0x0A] @
             join [CHR 0x0A, CHR 0x0A]
               (trigger_loop settings world text (tasks_processed settings world (ts1 @ t # ts2)) 0 ts1 @
                [''### '' @ trigger t @ '' - Processing Failed'' @ [CHR 0x0A] @
                   ''Could not process this trigger action.''] @
                trigger_loop settings world text (tasks_processed settings world (ts1 @ t # ts2))
                  (Suc (length ts1)) ts2) \<and>
         (\<forall>j r. j < length ts2 \<and>
            to_gemini (tasks_processed settings world (ts1 @ t # ts2)) (ts2 ! j) \<and>
            requestUrl world (Suc (length ts1) + j) (ts2 ! j) = Response (Some r) \<and> r \<noteq> [] \<longrightarrow>
            includes_str (process_triggers settings world text (ts1 @ t # ts2))
              (''### '' @ trigger (ts2 ! j) @ '' Results'' @ [CHR 0x0A] @ r))"
proof -
  let ?pt = "tasks_processed settings world (ts1 @ t # ts2)"
  let ?failed = "''### '' @ trigger t @ '' - Processing Failed'' @ [CHR 0x0A] @
                   ''Could not process this trigger action.''"
  let ?rs = "trigger_loop settings world text ?pt 0 ts1 @ [?failed] @
                trigger_loop settings world text ?pt (Suc (length ts1)) ts2"
  have one: "trigger_response settings world text ?pt (length ts1) t = [?failed]"
    using assms(2,1) by (rule trigger_response_failed)
  have loop: "trigger_loop settings world text ?pt 0 (ts1 @ t # ts2) = ?rs"
    by (simp add: trigger_loop_append one)
  have out: "process_triggers settings world text (ts1 @ t # ts2) =
      text @ [CHR 0x0A, CHR 0x0A] @ ''---'' @ [CHR 0x0A] @ ''## Triggered Actions'' @
             [CHR 0x0A, CHR 0x0A] @ join [CHR 0x0A, CHR 0x0A] ?rs"
    unfolding process_triggers_def Let_def loop by simp
  have later: "includes_str (process_triggers settings world text (ts1 @ t # ts2))
              (''### '' @ trigger (ts2 ! j) @ '' Results'' @ [CHR 0x0A] @ r)"
    if "j < length ts2" "to_gemini ?pt (ts2 ! j)"
      "requestUrl world (Suc (length ts1) + j) (ts2 ! j) = Response (Some r)" "r \<noteq> []" for j r
  proof -
    let ?b = "''### '' @ trigger (ts2 ! j) @ '' Results'' @ [CHR 0x0A] @ r"
    have "?b \<in> set (trigger_loop settings world text ?pt (Suc (length ts1)) ts2)"
      using that by (rule trigger_loop_nth)
    then have "?b \<in> set ?rs" by simp
    then obtain pre post where "join [CHR 0x0A, CHR 0x0A] ?rs = pre @ ?b @ post"
      using join_mem by blast
    then have "process_triggers settings world text (ts1 @ t # ts2) =
      (text @ [CHR 0x0A, CHR 0x0A] @ ''---'' @ [CHR 0x0A] @ ''## Triggered Actions'' @
             [CHR 0x0A, CHR 0x0A] @ pre) @ ?b @ post"
      unfolding out by simp
    then show ?thesis unfolding includes_str_iff by blast
  qed
  show ?thesis using out later by blast
qed

theorem trigger_failure_contained_witness:
  "requestUrl failing_world (length ([] :: DetectedTrigger list)) research_trigger = RequestThrows \<and>
   to_gemini (tasks_processed DEFAULT_SETTINGS failing_world ([] @ research_trigger # [expand_trigger]))
     research_trigger \<and>
   process_triggers DEFAULT_SETTINGS failing_world ''Notes'' ([] @ research_trigger # [expand_trigger]) =
     ''Notes'' @ [CHR 0x0A, CHR 0x0A] @ ''---'' @ [CHR 0x0A] @ ''## Triggered Actions'' @
       [CHR 0x0A, CHR 0x0A] @ ''### Research - Processing Failed'' @ [CHR 0x0A] @
       ''Could not process this trigger action.'' @ [CHR 0x0A, CHR 0x0A] @
       ''### Expand Results'' @ [CHR 0x0A] @ ''Detailed text'' \<and>
   includes_str
     (process_triggers DEFAULT_SETTINGS failing_world ''Notes'' ([] @ research_trigger # [expand_trigger]))
     (''### '' @ trigger ([expand_trigger] ! 0) @ '' Results'' @ [CHR 0x0A] @ ''Detailed text'')"
proof -
  have h1: "requestUrl failing_world (length ([] :: DetectedTrigger list)) research_trigger = RequestThrows"
    by (simp add: failing_world_def)
  have h2: "to_gemini (tasks_processed DEFAULT_SETTINGS failing_world ([] @ research_trigger # [expand_trigger]))
     research_trigger"
    by code_simp
  have c1: "process_triggers DEFAULT_SETTINGS failing_world ''Notes'' ([] @ research_trigger # [expand_trigger]) =
     ''Notes'' @ [CHR 0x0A, CHR 0x0A] @ ''---'' @ [CHR 0x0A] @ ''## Triggered Actions'' @
       [CHR 0x0A, CHR 0x0A] @ ''### Research - Processing Failed'' @ [CHR 0x0A] @
       ''Could not process this trigger action.'' @ [CHR 0x0A, CHR 0x0A] @
       ''### Expand Results'' @ [CHR 0x0A] @ ''Detailed text''"
    by code_simp
  have h3: "0 < length [expand_trigger] \<and>
     to_gemini (tasks_processed DEFAULT_SETTINGS failing_world ([] @ research_trigger # [expand_trigger]))
       ([expand_trigger] ! 0) \<and>
     requestUrl failing_world (Suc (length ([] :: DetectedTrigger list)) + 0) ([expand_trigger] ! 0) =
       Response (Some ''Detailed text'') \<and> ''Detailed text'' \<noteq> []"
    by code_simp
  have c2: "includes_str
     (process_triggers DEFAULT_SETTINGS failing_world ''Notes'' ([] @ research_trigger # [expand_trigger]))
     (''### '' @ trigger ([expand_trigger] ! 0) @ '' Results'' @ [CHR 0x0A] @ ''Detailed text'')"
    using trigger_failure_contained [OF h1 h2, of "''Notes''"] h3 by blast
  show ?thesis using h1 h2 c1 c2 by blast
qed

section \<open>The date normalizer: next weekday\<close>

lemma next_phrase_match:
  "\<forall>w \<in> set weekdayNames.
     trim (toLowerCase (''next '' @ w)) = ''next '' @ w \<and>
     (case match nextRegex False (''next '' @ w) of Some m \<Rightarrow> grp m 1 = w | None \<Rightarrow> False) \<and>
     0 \<le> indexOf weekdayIndex w \<and> indexOf weekdayIndex w \<le> 6"
  by code_simp

lemma next_phrase_literals:
  "\<forall>w \<in> set weekdayNames.
     ''next '' @ w \<noteq> ''today'' \<and> ''next '' @ w \<noteq> ''tonight'' \<and>
     ''next '' @ w \<noteq> ''tomorrow'' \<and> ''next '' @ w \<noteq> ''yesterday''"
  by code_simp

lemma next_rule_weekday:
  assumes "w \<in> set weekdayNames"
  shows "next_rule today w =
     Some (format (today + next_offset (WeekDay today) (indexOf weekdayIndex w)))"
proof -
  have "WeekDay (today + 7) = WeekDay today"
    unfolding WeekDay_def by presburger
  then show ?thesis
    using assms by (simp add: next_rule_def Let_def set_day_def next_offset_def algebra_simps)
qed

lemma next_offset_props:
  assumes "0 \<le> t" "t \<le> 6"
  shows "1 \<le> next_offset (WeekDay n) t" "next_offset (WeekDay n) t \<le> 7"
    "WeekDay (n + next_offset (WeekDay n) t) = t"
    "1 \<le> j \<Longrightarrow> j < next_offset (WeekDay n) t \<Longrightarrow> WeekDay (n + j) \<noteq> t"
proof -
  define d where "d = WeekDay n"
  have d: "0 \<le> d" "d \<le> 6" by (simp_all add: d_def WeekDay_def)
  show "1 \<le> next_offset (WeekDay n) t" "next_offset (WeekDay n) t \<le> 7"
    using assms d unfolding d_def [symmetric] next_offset_def by auto
  have w: "WeekDay (n + k) = (d + k) mod 7" for k
    unfolding d_def WeekDay_def by presburger
  show "WeekDay (n + next_offset (WeekDay n) t) = t"
    unfolding d_def [symmetric] w next_offset_def using assms d by auto
  show "WeekDay (n + j) \<noteq> t" if "1 \<le> j" "j < next_offset (WeekDay n) t"
  proof -
    have "(d + j) mod 7 \<noteq> t"
    proof (cases "d \<ge> t")
      case True
      with that have "j < 7 - (d - t)" by (simp add: next_offset_def d_def)
      show ?thesis
      proof (cases "d + j < 7")
        case True
        then have "(d + j) mod 7 = d + j" using d that by simp
        with \<open>d \<ge> t\<close> that show ?thesis by simp
      next
        case False
        then have "(d + j) mod 7 = d + j - 7"
          using d \<open>j < 7 - (d - t)\<close> assms by presburger
        with \<open>j < 7 - (d - t)\<close> show ?thesis by simp
      qed
    next
      case False
      with that have "j < t - d" by (simp add: next_offset_def d_def)
      then have "(d + j) mod 7 = d + j" using d that assms by simp
      with \<open>j < t - d\<close> show ?thesis by simp
    qed
    then show ?thesis by (simp add: w)
  qed
qed

text \<open>
  Claim C3. For every reference day and every weekday \<open>w\<close>, a phrase that normalizes to
  \<open>next w\<close> gives the day \<open>k\<close> days after the reference day, where \<open>k\<close> is between
  1 and 7, that day has the weekday \<open>w\<close> and no day in between has: the next occurrence
  strictly after the reference day. When the weekday number of the reference day is at
  least that of \<open>w\<close> a full week is added before the weekday is set. Both versions of
  the normalizer agree.
\<close>

theorem next_weekday_strictly_after:
  assumes "w \<in> set weekdayNames"
    and "trim (toLowerCase phrase) = ''next '' @ w"
  shows "\<exists>k. 1 \<le> k \<and> k \<le> 7 \<and>
           WeekDay (today + k) = indexOf weekdayIndex w \<and>
           (\<forall>j. 1 \<le> j \<and> j < k \<longrightarrow> WeekDay (today + j) \<noteq> indexOf weekdayIndex w) \<and>
           k = (if WeekDay today \<ge> indexOf weekdayIndex w
                then 7 - (WeekDay today - indexOf weekdayIndex w)
                else indexOf weekdayIndex w - WeekDay today) \<and>
           parseNaturalDate now phrase (Some today) = Some (format (today + k)) \<and>
           parseNaturalDate2 now phrase (Some today) = Some (format (today + k))"
proof -
  let ?t = "indexOf weekdayIndex w"
  let ?k = "next_offset (WeekDay today) ?t"
  note n = assms(2)
  from assms(1) next_phrase_match next_phrase_literals
  have t: "0 \<le> ?t" "?t \<le> 6"
    and l: "''next '' @ w \<noteq> ''today''" "''next '' @ w \<noteq> ''tonight''"
      "''next '' @ w \<noteq> ''tomorrow''" "''next '' @ w \<noteq> ''yesterday''"
    and m: "case match nextRegex False (''next '' @ w) of Some m \<Rightarrow> grp m 1 = w | None \<Rightarrow> False"
    by blast+
  from m obtain m where m': "match nextRegex False (''next '' @ w) = Some m" "grp m 1 = w"
    by (auto split: option.splits)
  have r: "next_rule today w = Some (format (today + ?k))"
    using assms(1) by (rule next_rule_weekday)
  have p1: "parseNaturalDate now phrase (Some today) = Some (format (today + ?k))"
    unfolding parseNaturalDate_def Let_def n using l m' r by simp
  have p2: "parseNaturalDate2 now phrase (Some today) = Some (format (today + ?k))"
    unfolding parseNaturalDate2_def Let_def n using l m' r by simp
  have k: "?k = (if WeekDay today \<ge> ?t then 7 - (WeekDay today - ?t) else ?t - WeekDay today)"
    by (simp add: next_offset_def)
  show ?thesis
  proof (intro exI [of _ ?k] conjI allI impI)
    show "1 \<le> ?k" "?k \<le> 7" "WeekDay (today + ?k) = ?t"
      by (rule next_offset_props [OF t])+
    show "WeekDay (today + j) \<noteq> ?t" if "1 \<le> j \<and> j < ?k" for j
      using that next_offset_props(4) [OF t, of j today] by simp
  qed (rule k p1 p2)+
qed

text \<open>
  The reference day 19793 is Monday 2024-03-11, and \<open>next Monday\<close> said on it is
  2024-03-18.
\<close>

theorem next_weekday_strictly_after_witness:
  "''monday'' \<in> set weekdayNames \<and>
   trim (toLowerCase ''next Monday'') = ''next '' @ ''monday'' \<and>
   format 19793 = ''2024-03-11'' \<and> WeekDay 19793 = 1 \<and>
   parseNaturalDate 0 ''next Monday'' (Some 19793) = Some ''2024-03-18'' \<and>
   parseNaturalDate2 0 ''next Monday'' (Some 19793) = Some ''2024-03-18''"
proof -
  have h1: "''monday'' \<in> set weekdayNames"
    by (simp add: weekdayNames_def)
  have h2: "trim (toLowerCase ''next Monday'') = ''next '' @ ''monday''"
    by code_simp
  have e: "format 19793 = ''2024-03-11''" "WeekDay 19793 = 1" "indexOf weekdayIndex ''monday'' = 1"
    "format (19793 + 7) = ''2024-03-18''"
    by code_simp+
  from next_weekday_strictly_after [OF h1 h2, of 19793 0]
  obtain k where k: "k = (if WeekDay 19793 \<ge> indexOf weekdayIndex ''monday''
                then 7 - (WeekDay 19793 - indexOf weekdayIndex ''monday'')
                else indexOf weekdayIndex ''monday'' - WeekDay 19793)"
    and p: "parseNaturalDate 0 ''next Monday'' (Some 19793) = Some (format (19793 + k))"
      "parseNaturalDate2 0 ''next Monday'' (Some 19793) = Some (format (19793 + k))"
    by blast
  have "k = 7" using k e by simp
  with p e h1 h2 show ?thesis by simp
qed

section \<open>The date normalizer: the reference day\<close>

text \<open>
  Claim C5, as stated, fails: the call sites of task extraction pass the phrase alone, and
  the normalizer then reads the clock, so the same phrase gives different dates on
  different days.
\<close>

theorem normalizer_reads_clock:
  "parseNaturalDate 19793 ''tomorrow'' None = Some ''2024-03-12'' \<and>
   parseNaturalDate 19794 ''tomorrow'' None = Some ''2024-03-13'' \<and>
   map dates (parseTasksForObsidianTasks DEFAULT_SETTINGS 19793 ''Call Bob by tomorrow'') =
     [Some [(''due'', ''2024-03-12'')]] \<and>
   map dates (parseTasksForObsidianTasks DEFAULT_SETTINGS 19794 ''Call Bob by tomorrow'') =
     [Some [(''due'', ''2024-03-13'')]]"
  by code_simp

text \<open>
  Claim C5, amended. When the caller passes a reference day, the result depends on the
  phrase and that day only, whatever the clock; when it passes none, the reference day
  is the clock.
\<close>

theorem reference_instant_determines_result:
  "parseNaturalDate now1 phrase (Some ref) = parseNaturalDate now2 phrase (Some ref) \<and>
   parseNaturalDate2 now1 phrase (Some ref) = parseNaturalDate2 now2 phrase (Some ref) \<and>
   parseNaturalDate now phrase None = parseNaturalDate now' phrase (Some now) \<and>
   parseNaturalDate2 now phrase None = parseNaturalDate2 now' phrase (Some now)"
  by (simp add: parseNaturalDate_def parseNaturalDate2_def)

theorem reference_instant_determines_result_witness:
  "parseNaturalDate 19793 ''tomorrow'' (Some 19800) = Some ''2024-03-19'' \<and>
   parseNaturalDate 19794 ''tomorrow'' (Some 19800) = Some ''2024-03-19'' \<and>
   parseNaturalDate 19793 ''tomorrow'' None = parseNaturalDate 0 ''tomorrow'' (Some 19793)"
proof -
  have "parseNaturalDate 19793 ''tomorrow'' (Some 19800) = Some ''2024-03-19''"
    by code_simp
  then show ?thesis
    using reference_instant_determines_result [of 19793 "''tomorrow''" 19800 19794 19793 0]
    by simp
qed

section \<open>The formatter\<close>

text \<open>
  Claim C8. The formatted line is, in this order: the checkbox marker, the priority glyph
  and a space (present exactly when priorities are shown and the record has one), the
  text, the dates present in the fixed order due, scheduled, start, each after its glyph,
  the creation date after its glyph, then the tags.
\<close>

theorem formatter_order:
  "formatTaskForObsidianTasks settings now task =
     ''- [ ] '' @
     (if taskPriorities settings \<and> priority task \<noteq> [] then priority task @ '' '' else []) @
     text' task @
     (case dates task of
        None \<Rightarrow> []
      | Some ds \<Rightarrow>
          (if truthy (map_of ds ''due'') then '' '' @ glyph_due @ '' '' @ str_of (map_of ds ''due'') else []) @
          (if truthy (map_of ds ''scheduled'')
           then '' '' @ glyph_scheduled @ '' '' @ str_of (map_of ds ''scheduled'') else []) @
          (if truthy (map_of ds ''start'')
           then '' '' @ glyph_start @ '' '' @ str_of (map_of ds ''start'') else [])) @
     '' '' @ glyph_created @ '' '' @ format now @
     (if tags task \<noteq> [] then '' '' @ join '' '' (tags task) else [])"
  by (simp add: formatTaskForObsidianTasks_def date_part_def Let_def split: option.splits)

theorem formatter_order_witness:
  "formatTaskForObsidianTasks DEFAULT_SETTINGS 19793 sample_task =
     ''- [ ] '' @ glyph_highest @ '' Finish report '' @ glyph_due @ '' 2024-03-12 '' @
     glyph_scheduled @ '' 2024-03-11 '' @ glyph_start @ '' 2024-03-10 '' @ glyph_created @
     '' 2024-03-11 #urgent #task'' \<and>
   formatTaskForObsidianTasks (DEFAULT_SETTINGS\<lparr>taskPriorities := False\<rparr>) 19793 sample_task =
     ''- [ ] Finish report '' @ glyph_due @ '' 2024-03-12 '' @
     glyph_scheduled @ '' 2024-03-11 '' @ glyph_start @ '' 2024-03-10 '' @ glyph_created @
     '' 2024-03-11 #urgent #task''"
proof -
  have f: "format 19793 = ''2024-03-11''" by code_simp
  show ?thesis
    unfolding formatter_order [of DEFAULT_SETTINGS 19793 sample_task]
      formatter_order [of "DEFAULT_SETTINGS\<lparr>taskPriorities := False\<rparr>" 19793 sample_task]
    by (simp add: f sample_task_def DEFAULT_SETTINGS_def truthy_def str_of_def glyph_highest_def)
qed

section \<open>Triggers: the translate pattern\<close>





section \<open>Task extraction: what is left in the text\<close>

lemma step_Nil [simp]: "rest st = [] \<Longrightarrow> step P st = []"
  by (simp add: step_def)






lemma tag_class: "(\<exists>x \<in> set [W, C CHR ''-'']. citem_has False x c) = tag_char c"
  by (auto simp: tag_char_def)

lemma not_tag_char_hash: "\<not> tag_char CHR ''#''"
  by (simp add: tag_char_def is_word_def)
























section \<open>Task extraction: a date phrase that does not parse\<close>





end
